theory Spec2Isabelle
  imports Complex_Main
begin

section \<open>Numbers and strings\<close>

text \<open>
  The TypeScript sources compute with \<open>number\<close>. The embedding reads a \<open>number\<close> as a
  real: finite values; \<open>NaN\<close> and the infinities are outside the model. Thresholds,
  percentages and comparisons are computed exactly; the target and stop-loss prices, whose
  bounds are a matter of the last bit, are computed with the rounding of binary floating
  point (see \<open>double\<close> below). Where the source divides, the places that matter say what
  JavaScript does when the divisor is zero.
\<close>

text \<open>Decimal digits of a natural number, most significant first.\<close>

fun show_nat :: "nat \<Rightarrow> string" where
  "show_nat n =
     (if n < 10 then [char_of (48 + n)]
      else show_nat (n div 10) @ [char_of (48 + n mod 10)])"

declare show_nat.simps [simp del]

text \<open>
  \<open>Number.prototype.toFixed(2)\<close>: the integer \<open>n\<close> with \<open>n / 100\<close> closest to the
  argument (the larger one on a tie), printed with two decimals; a negative argument prints
  a minus sign followed by the digits of its negation. (Beyond \<open>10^21\<close> JavaScript switches
  to exponent notation; percentages stay far below.)
\<close>

definition toFixed2 :: "real \<Rightarrow> string" where
  "toFixed2 x =
     (let a = (if x < 0 then - x else x);
          n = nat \<lfloor>a * 100 + 1 / 2\<rfloor>
      in (if x < 0 then ''-'' else '''') @
         show_nat (n div 100) @ ''.'' @
         [char_of (48 + (n mod 100) div 10), char_of (48 + n mod 10)])"

section \<open>Double-precision arithmetic\<close>

text \<open>
  Where a claim turns on the last bit of a result (the synthesis of target and stop-loss
  prices) the arithmetic is JavaScript's: every operation is computed exactly and then
  rounded to the nearest IEEE 754 binary64 value, ties to even. \<open>rne\<close> rounds a real to
  the nearest integer, ties to even. \<open>binade x\<close> is the exponent of the binade of a
  positive \<open>x\<close>, held at \<open>-1022\<close> in the subnormal range, and \<open>ulp x\<close> the spacing of the
  doubles there, \<open>2\<close> to the power \<open>binade x - 52\<close>. \<open>double x\<close> is the double nearest to
  \<open>x\<close>. Overflow to an infinity (beyond about \<open>1.8 \<times> 10^308\<close>) is outside the model.
  On a concrete input \<open>double\<close> is computed with the lemma \<open>double_eval\<close> below.
\<close>

definition rne :: "real \<Rightarrow> int" where
  "rne y =
     (let f = \<lfloor>y\<rfloor>; d = y - of_int f in
      if d < 1 / 2 then f else if 1 / 2 < d then f + 1 else if even f then f else f + 1)"

definition pow2 :: "int \<Rightarrow> real" where
  "pow2 k = 2 powr (of_int k)"

definition binade :: "real \<Rightarrow> int" where
  "binade x = max \<lfloor>log 2 x\<rfloor> (- 1022)"

definition ulp :: "real \<Rightarrow> real" where
  "ulp x = pow2 (binade x - 52)"

definition double :: "real \<Rightarrow> real" where
  "double x =
     (if x = 0 then 0
      else if 0 < x then of_int (rne (x / ulp x)) * ulp x
      else - (of_int (rne (- x / ulp (- x))) * ulp (- x)))"

text \<open>JavaScript's \<open>+\<close>, \<open>-\<close> and \<open>*\<close> on numbers.\<close>

definition fadd :: "real \<Rightarrow> real \<Rightarrow> real" where
  "fadd x y = double (x + y)"

definition fsub :: "real \<Rightarrow> real \<Rightarrow> real" where
  "fsub x y = double (x - y)"

definition fmul :: "real \<Rightarrow> real \<Rightarrow> real" where
  "fmul x y = double (x * y)"

section \<open>The market-data service (\<open>services/cryptoApi.ts\<close>)\<close>

record CoinGeckoMarket =
  cg_id :: string
  cg_symbol :: string
  cg_name :: string
  cg_image :: string
  current_price :: real
  market_cap :: real
  market_cap_rank :: real
  fully_diluted_valuation :: "real option"
  total_volume :: real
  high_24h :: real
  low_24h :: real
  price_change_24h :: real
  price_change_percentage_24h :: real
  market_cap_change_24h :: real
  market_cap_change_percentage_24h :: real
  circulating_supply :: real
  total_supply :: "real option"
  max_supply :: "real option"
  ath :: real
  ath_change_percentage :: real
  ath_date :: string
  atl :: real
  atl_change_percentage :: real
  atl_date :: string
  roi :: "unit option"
  last_updated :: string

subsection \<open>\<open>getFallbackData\<close>\<close>

text \<open>
  The built-in sample. \<open>last_updated\<close> is \<open>new Date().toISOString()\<close>; the clock reading is
  the parameter \<open>now\<close>.
\<close>

definition fallback_bitcoin :: "string \<Rightarrow> CoinGeckoMarket" where
  "fallback_bitcoin now =
     \<lparr>cg_id = ''bitcoin'', cg_symbol = ''btc'', cg_name = ''Bitcoin'',
      cg_image = ''https://assets.coingecko.com/coins/images/1/large/bitcoin.png'',
      current_price = 43250.00, market_cap = 847500000000, market_cap_rank = 1,
      fully_diluted_valuation = Some 908250000000, total_volume = 18500000000,
      high_24h = 44100.00, low_24h = 42800.00, price_change_24h = 450.00,
      price_change_percentage_24h = 1.05, market_cap_change_24h = 8850000000,
      market_cap_change_percentage_24h = 1.05, circulating_supply = 19600000,
      total_supply = Some 21000000, max_supply = Some 21000000, ath = 69045,
      ath_change_percentage = - 37.4, ath_date = ''2021-11-10T14:24:11.849Z'',
      atl = 67.81, atl_change_percentage = 63650.8,
      atl_date = ''2013-07-06T00:00:00.000Z'', roi = None, last_updated = now\<rparr>"

definition fallback_ethereum :: "string \<Rightarrow> CoinGeckoMarket" where
  "fallback_ethereum now =
     \<lparr>cg_id = ''ethereum'', cg_symbol = ''eth'', cg_name = ''Ethereum'',
      cg_image = ''https://assets.coingecko.com/coins/images/279/large/ethereum.png'',
      current_price = 2650.00, market_cap = 318500000000, market_cap_rank = 2,
      fully_diluted_valuation = Some 318500000000, total_volume = 12800000000,
      high_24h = 2720.00, low_24h = 2580.00, price_change_24h = 35.50,
      price_change_percentage_24h = 1.36, market_cap_change_24h = 4270000000,
      market_cap_change_percentage_24h = 1.36, circulating_supply = 120280000,
      total_supply = Some 120280000, max_supply = None, ath = 4878.26,
      ath_change_percentage = - 45.7, ath_date = ''2021-11-10T14:24:19.604Z'',
      atl = 0.432979, atl_change_percentage = 611850.1,
      atl_date = ''2015-10-20T00:00:00.000Z'', roi = None, last_updated = now\<rparr>"

definition fallback_binancecoin :: "string \<Rightarrow> CoinGeckoMarket" where
  "fallback_binancecoin now =
     \<lparr>cg_id = ''binancecoin'', cg_symbol = ''bnb'', cg_name = ''BNB'',
      cg_image = ''https://assets.coingecko.com/coins/images/825/large/bnb-icon2_2x.png'',
      current_price = 315.50, market_cap = 47200000000, market_cap_rank = 3,
      fully_diluted_valuation = Some 47200000000, total_volume = 1850000000,
      high_24h = 322.00, low_24h = 308.50, price_change_24h = 4.20,
      price_change_percentage_24h = 1.35, market_cap_change_24h = 628000000,
      market_cap_change_percentage_24h = 1.35, circulating_supply = 149500000,
      total_supply = Some 149500000, max_supply = Some 200000000, ath = 686.31,
      ath_change_percentage = - 54.0, ath_date = ''2021-05-10T07:24:17.097Z'',
      atl = 0.0398177, atl_change_percentage = 792150.5,
      atl_date = ''2017-10-19T00:00:00.000Z'', roi = None, last_updated = now\<rparr>"

definition fallback_solana :: "string \<Rightarrow> CoinGeckoMarket" where
  "fallback_solana now =
     \<lparr>cg_id = ''solana'', cg_symbol = ''sol'', cg_name = ''Solana'',
      cg_image = ''https://assets.coingecko.com/coins/images/4128/large/solana.png'',
      current_price = 98.50, market_cap = 44800000000, market_cap_rank = 4,
      fully_diluted_valuation = Some 56200000000, total_volume = 2150000000,
      high_24h = 102.50, low_24h = 95.20, price_change_24h = 2.80,
      price_change_percentage_24h = 2.93, market_cap_change_24h = 1270000000,
      market_cap_change_percentage_24h = 2.93, circulating_supply = 454800000,
      total_supply = Some 570500000, max_supply = None, ath = 259.96,
      ath_change_percentage = - 62.1, ath_date = ''2021-11-06T21:54:35.825Z'',
      atl = 0.500801, atl_change_percentage = 19560.8,
      atl_date = ''2020-05-11T19:35:23.449Z'', roi = None, last_updated = now\<rparr>"

definition fallback_cardano :: "string \<Rightarrow> CoinGeckoMarket" where
  "fallback_cardano now =
     \<lparr>cg_id = ''cardano'', cg_symbol = ''ada'', cg_name = ''Cardano'',
      cg_image = ''https://assets.coingecko.com/coins/images/975/large/cardano.png'',
      current_price = 0.485, market_cap = 17200000000, market_cap_rank = 5,
      fully_diluted_valuation = Some 21800000000, total_volume = 485000000,
      high_24h = 0.495, low_24h = 0.472, price_change_24h = 0.008,
      price_change_percentage_24h = 1.68, market_cap_change_24h = 284000000,
      market_cap_change_percentage_24h = 1.68, circulating_supply = 35450000000,
      total_supply = Some 45000000000, max_supply = Some 45000000000, ath = 3.09,
      ath_change_percentage = - 84.3, ath_date = ''2021-09-02T06:00:10.474Z'',
      atl = 0.01925275, atl_change_percentage = 2420.1,
      atl_date = ''2020-03-13T02:22:55.391Z'', roi = None, last_updated = now\<rparr>"

definition getFallbackData :: "string \<Rightarrow> CoinGeckoMarket list" where
  "getFallbackData now =
     [fallback_bitcoin now, fallback_ethereum now, fallback_binancecoin now,
      fallback_solana now, fallback_cardano now]"

subsection \<open>\<open>fetchWithRetry\<close> and \<open>getTopCryptocurrencies\<close>\<close>

text \<open>
  The network is a parameter: \<open>net url k\<close> is what the \<open>k\<close>-th call of \<open>fetch\<close> (counted
  from the start of the session) yields for \<open>url\<close>. \<open>Failure\<close> stands for every way the
  \<open>try\<close> block throws: \<open>fetch\<close> rejecting, a status that is not ok, \<open>json()\<close> rejecting.
  The world records how many calls of \<open>fetch\<close> were made and the delays handed to
  \<open>setTimeout\<close>, in milliseconds, in order.
\<close>

datatype 'a response = Failure | Success 'a

datatype 'a completion = Return 'a | Throw

record world =
  fetches :: nat
  sleeps :: "nat list"

type_synonym 'a network = "string \<Rightarrow> nat \<Rightarrow> 'a response"

text \<open>
  The \<open>for\<close> loop of \<open>fetchWithRetry\<close>, from iteration \<open>i\<close>. Falling out of the loop (only
  possible with \<open>retries = 0\<close>) returns \<open>undefined\<close>, here \<open>None\<close>.
\<close>

function fetchWithRetry_loop ::
  "'a network \<Rightarrow> string \<Rightarrow> nat \<Rightarrow> nat \<Rightarrow> world \<Rightarrow> 'a option completion \<times> world" where
  "fetchWithRetry_loop net url retries i w =
     (if i < retries then
        (let w' = w\<lparr>fetches := fetches w + 1\<rparr> in
         case net url (fetches w) of
           Success v \<Rightarrow> (Return (Some v), w')
         | Failure \<Rightarrow>
             if i = retries - 1 then (Throw, w')
             else fetchWithRetry_loop net url retries (i + 1)
                    (w'\<lparr>sleeps := sleeps w' @ [2 ^ i * 1000]\<rparr>))
      else (Return None, w))"
  by pat_completeness auto
termination
  by (relation "measure (\<lambda>(net, url, retries, i, w). retries - i)") auto

declare fetchWithRetry_loop.simps [simp del]

definition fetchWithRetry ::
  "'a network \<Rightarrow> string \<Rightarrow> nat \<Rightarrow> world \<Rightarrow> 'a option completion \<times> world" where
  "fetchWithRetry net url retries w = fetchWithRetry_loop net url retries 0 w"

definition COINGECKO_API_BASE :: string where
  "COINGECKO_API_BASE = ''https://api.coingecko.com/api/v3''"

definition markets_url :: "nat \<Rightarrow> nat \<Rightarrow> string" where
  "markets_url per_page page =
     COINGECKO_API_BASE @ ''/coins/markets?vs_currency=usd&order=market_cap_desc&per_page='' @
     show_nat per_page @ ''&page='' @ show_nat page @ ''&sparkline=false&locale=en''"

text \<open>
  The page loop of the branch for limits above 250, from page \<open>page\<close> with \<open>results\<close>
  collected so far. Spreading \<open>undefined\<close> into \<open>push\<close> is a \<open>TypeError\<close>.
\<close>

function fetch_pages ::
  "CoinGeckoMarket list network \<Rightarrow> nat \<Rightarrow> nat \<Rightarrow> nat \<Rightarrow> nat \<Rightarrow> CoinGeckoMarket list \<Rightarrow>
     world \<Rightarrow> CoinGeckoMarket list completion \<times> world" where
  "fetch_pages net limit perPage pages page results w =
     (if page \<le> pages then
        (case fetchWithRetry net (markets_url perPage page) 3 w of
           (Throw, w') \<Rightarrow> (Throw, w')
         | (Return None, w') \<Rightarrow> (Throw, w')
         | (Return (Some pageResults), w') \<Rightarrow>
             (let results' = results @ pageResults in
              if length results' \<ge> limit then (Return results', w')
              else fetch_pages net limit perPage pages (page + 1) results' w'))
      else (Return results, w))"
  by pat_completeness auto
termination
  by (relation "measure (\<lambda>(net, limit, perPage, pages, page, results, w). Suc pages - page)") auto

declare fetch_pages.simps [simp del]

text \<open>
  \<open>getTopCryptocurrencies\<close>; the result \<open>None\<close> is JavaScript's \<open>undefined\<close>. The limit is
  a natural number, and \<open>Math.ceil(limit / 250)\<close> is written with integer division.
\<close>

definition getTopCryptocurrencies ::
  "CoinGeckoMarket list network \<Rightarrow> string \<Rightarrow> nat \<Rightarrow> world \<Rightarrow> CoinGeckoMarket list option \<times> world" where
  "getTopCryptocurrencies net now limit w =
     (if limit \<le> 250 then
        (case fetchWithRetry net (markets_url limit 1) 3 w of
           (Return r, w') \<Rightarrow> (r, w')
         | (Throw, w') \<Rightarrow> (Some (getFallbackData now), w'))
      else
        (let perPage = 250; pages = (limit + (perPage - 1)) div perPage in
         case fetch_pages net limit perPage pages 1 [] w of
           (Return results, w') \<Rightarrow> (Some (take limit results), w')
         | (Throw, w') \<Rightarrow> (Some (getFallbackData now), w')))"

text \<open>A network on which every request fails.\<close>

definition unreachable :: "CoinGeckoMarket list network" where
  "unreachable url k = Failure"

definition fresh_world :: world where
  "fresh_world = \<lparr>fetches = 0, sleeps = []\<rparr>"

datatype signal_kind = BUY | SELL | HOLD

datatype signal_strength = STRONG | MODERATE | WEAK

record TechnicalSignal =
  signal :: signal_kind
  strength :: signal_strength
  confidence :: nat
  reasoning :: string

subsection \<open>\<open>generateTechnicalSignal\<close>\<close>

definition generateTechnicalSignal :: "CoinGeckoMarket \<Rightarrow> TechnicalSignal" where
  "generateTechnicalSignal crypto =
     (let priceChange = price_change_percentage_24h crypto;
          volume = total_volume crypto;
          marketCap = market_cap crypto
      in if priceChange > 5 \<and> volume > marketCap * 0.1 then
           \<lparr>signal = BUY, strength = STRONG, confidence = 85,
            reasoning = ''Strong bullish momentum with '' @ toFixed2 priceChange @
              ''% gain and high volume. Technical indicators suggest continued upward movement.''\<rparr>
         else if priceChange > 2 then
           \<lparr>signal = BUY, strength = MODERATE, confidence = 70,
            reasoning = ''Positive price action with '' @ toFixed2 priceChange @
              ''% gain. Moderate bullish sentiment with room for growth.''\<rparr>
         else if priceChange < - 5 \<and> volume > marketCap * 0.1 then
           \<lparr>signal = SELL, strength = STRONG, confidence = 80,
            reasoning = ''Significant bearish pressure with '' @ toFixed2 \<bar>priceChange\<bar> @
              ''% decline and high volume. Risk of further downside.''\<rparr>
         else if priceChange < - 2 then
           \<lparr>signal = SELL, strength = MODERATE, confidence = 65,
            reasoning = ''Negative price momentum with '' @ toFixed2 \<bar>priceChange\<bar> @
              ''% decline. Caution advised as trend may continue.''\<rparr>
         else
           \<lparr>signal = HOLD,
            strength = (if \<bar>priceChange\<bar> > 1 then MODERATE else WEAK),
            confidence = 60,
            reasoning = ''Consolidation phase with '' @ toFixed2 priceChange @
              ''% change. Mixed signals suggest waiting for clearer direction.''\<rparr>)"

subsection \<open>The decision table of the specification\<close>

text \<open>
  The specification's \<open>volRatio > 0.1\<close>, with \<open>volRatio = volume / marketCap\<close> evaluated
  as JavaScript evaluates it: for a zero market cap the quotient is \<open>+Infinity\<close> when the
  volume is positive (and \<open>NaN\<close> or \<open>-Infinity\<close> otherwise), so the comparison holds
  exactly when the volume is positive.
\<close>

definition volRatio_exceeds :: "real \<Rightarrow> real \<Rightarrow> bool" where
  "volRatio_exceeds volume marketCap =
     (if marketCap = 0 then volume > 0 else volume / marketCap > 0.1)"

text \<open>The five rows of the table, read top to bottom, the first match winning.\<close>

definition decision_table :: "real \<Rightarrow> real \<Rightarrow> real \<Rightarrow> signal_kind \<times> signal_strength \<times> nat" where
  "decision_table pct volume marketCap =
     (if pct > 5 \<and> volRatio_exceeds volume marketCap then (BUY, STRONG, 85)
      else if pct > 2 then (BUY, MODERATE, 70)
      else if pct < - 5 \<and> volRatio_exceeds volume marketCap then (SELL, STRONG, 80)
      else if pct < - 2 then (SELL, MODERATE, 65)
      else (HOLD, if \<bar>pct\<bar> > 1 then MODERATE else WEAK, 60))"

section \<open>The dashboard's market list (\<open>components/Dashboard.tsx\<close>)\<close>

record Cryptocurrency =
  c_id :: string
  c_symbol :: string
  c_name :: string
  c_currentPrice :: real
  priceChange24h :: real
  priceChangePercentage24h :: real
  marketCap :: real
  volume24h :: real
  lastUpdated :: string
  c_image :: "string option"

section \<open>The live signal feed (\<open>LiveSignalFeed\<close>)\<close>

record LiveSignal =
  sig_id :: string
  symbol :: string
  signalType :: signal_kind
  sig_strength :: signal_strength
  confidenceScore :: nat
  currentPrice :: real
  targetPrice :: "real option"
  stopLoss :: "real option"
  sig_reasoning :: string
  createdAt :: string
  isActive :: bool
  performancePercentage :: real
  updatedAt :: string

text \<open>A row written to the \<open>signalUpdates\<close> table (its generated \<open>id\<close> left out).\<close>

record SignalUpdate =
  userId :: string
  signalId :: string
  priceAtUpdate :: real
  performanceChange :: real
  updateType :: string

text \<open>
  The component's state as far as re-pricing goes: the \<open>signals\<close> list of \<open>useState\<close> and
  the rows created in \<open>signalUpdates\<close>. Toasts change neither and are left out.
\<close>

record feed =
  signals :: "LiveSignal list"
  signalUpdates :: "SignalUpdate list"

text \<open>
  What a tick reads from outside: the signed-in user (\<open>None\<close> when there is none), the clock
  reading used for \<open>updatedAt\<close>, and whether the two awaited database writes for the signal
  with a given id resolve. A write that rejects throws out of the \<open>for\<close> loop into the
  \<open>catch\<close> of \<open>updateSignalPerformance\<close>.
\<close>

record tick_env =
  tick_user :: "string option"
  tick_now :: string
  persists :: "string \<Rightarrow> bool"

subsection \<open>\<open>updateSignalPerformance\<close>\<close>

text \<open>\<open>signal.targetPrice && ...\<close>: \<open>undefined\<close> and \<open>0\<close> are falsy.\<close>

definition truthy :: "real option \<Rightarrow> bool" where
  "truthy x = (case x of None \<Rightarrow> False | Some v \<Rightarrow> v \<noteq> 0)"

text \<open>
  The performance percentage of the loop body. (JavaScript's quotient by a zero
  \<open>initialPrice\<close> is an infinity or \<open>NaN\<close>; HOL's is 0.)
\<close>

definition performance :: "LiveSignal \<Rightarrow> real \<Rightarrow> real" where
  "performance sg price =
     (let initialPrice = currentPrice sg in
      if signalType sg = BUY then ((price - initialPrice) / initialPrice) * 100
      else if signalType sg = SELL then ((initialPrice - price) / initialPrice) * 100
      else 0)"

text \<open>The \<open>if\<close> chain that sets \<open>status\<close> and \<open>isActive\<close>.\<close>

definition check_target_stop :: "LiveSignal \<Rightarrow> real \<Rightarrow> string \<times> bool" where
  "check_target_stop sg price =
     (if truthy (targetPrice sg) \<and> signalType sg = BUY \<and>
         price \<ge> the (targetPrice sg) then (''hit_target'', False)
      else if truthy (targetPrice sg) \<and> signalType sg = SELL \<and>
         price \<le> the (targetPrice sg) then (''hit_target'', False)
      else if truthy (stopLoss sg) \<and> signalType sg = BUY \<and>
         price \<le> the (stopLoss sg) then (''hit_stop_loss'', False)
      else if truthy (stopLoss sg) \<and> signalType sg = SELL \<and>
         price \<ge> the (stopLoss sg) then (''hit_stop_loss'', False)
      else (''active'', True))"

text \<open>The object spread of \<open>setSignals\<close> for the entry whose id matches.\<close>

definition repriced :: "tick_env \<Rightarrow> LiveSignal \<Rightarrow> real \<Rightarrow> LiveSignal \<Rightarrow> LiveSignal" where
  "repriced env sg price s =
     s\<lparr>currentPrice := price,
       performancePercentage := performance sg price,
       isActive := snd (check_target_stop sg price),
       updatedAt := tick_now env\<rparr>"

text \<open>The row passed to \<open>signalUpdates.create\<close>.\<close>

definition update_row :: "tick_env \<Rightarrow> LiveSignal \<Rightarrow> real \<Rightarrow> SignalUpdate" where
  "update_row env sg price =
     (let status = fst (check_target_stop sg price) in
      \<lparr>userId = the (tick_user env), signalId = sig_id sg, priceAtUpdate = price,
       performanceChange = performance sg price,
       updateType = (if status = ''active'' then ''price_update'' else status)\<rparr>)"

text \<open>
  The \<open>for\<close> loop over the open signals captured when the callback was created; the state
  is updated through \<open>setSignals(prev => prev.map(...))\<close> after the writes.
\<close>

fun updateSignalPerformance_loop ::
  "tick_env \<Rightarrow> Cryptocurrency list \<Rightarrow> LiveSignal list \<Rightarrow> feed \<Rightarrow> feed" where
  "updateSignalPerformance_loop env cryptos [] st = st"
| "updateSignalPerformance_loop env cryptos (sg # rest) st =
     (case find (\<lambda>c. c_symbol c = symbol sg) cryptos of
        None \<Rightarrow> updateSignalPerformance_loop env cryptos rest st
      | Some crypto \<Rightarrow>
          (let price = c_currentPrice crypto in
           if \<not> persists env (sig_id sg) then st
           else updateSignalPerformance_loop env cryptos rest
                  \<lparr>signals = map (\<lambda>s. if sig_id s = sig_id sg
                                       then repriced env sg price s else s) (signals st),
                   signalUpdates = signalUpdates st @ [update_row env sg price]\<rparr>))"

definition updateSignalPerformance :: "tick_env \<Rightarrow> Cryptocurrency list \<Rightarrow> feed \<Rightarrow> feed" where
  "updateSignalPerformance env cryptos st =
     (if tick_user env = None \<or> signals st = [] \<or> cryptos = [] then st
      else updateSignalPerformance_loop env cryptos (filter isActive (signals st)) st)"

text \<open>A sequence of ticks, each with its own environment and market list.\<close>

fun reticks :: "(tick_env \<times> Cryptocurrency list) list \<Rightarrow> feed \<Rightarrow> feed" where
  "reticks [] st = st"
| "reticks ((env, cryptos) # ticks) st = reticks ticks (updateSignalPerformance env cryptos st)"

text \<open>
  The rows a run of the loop writes to \<open>signalUpdates\<close>, and the rows written between two
  states.
\<close>

fun appended_rows :: "tick_env \<Rightarrow> Cryptocurrency list \<Rightarrow> LiveSignal list \<Rightarrow> SignalUpdate list" where
  "appended_rows env cryptos [] = []"
| "appended_rows env cryptos (sg # rest) =
     (case find (\<lambda>c. c_symbol c = symbol sg) cryptos of
        None \<Rightarrow> appended_rows env cryptos rest
      | Some crypto \<Rightarrow>
          if \<not> persists env (sig_id sg) then []
          else update_row env sg (c_currentPrice crypto) # appended_rows env cryptos rest)"

definition rows_since :: "feed \<Rightarrow> feed \<Rightarrow> SignalUpdate list" where
  "rows_since st st' = drop (length (signalUpdates st)) (signalUpdates st')"

subsection \<open>The transition rule of the specification\<close>

text \<open>
  The price has crossed the target in the favourable direction: at or above it for a BUY, at
  or below it for a SELL. The stop-loss is crossed in the adverse direction: at or below it
  for a BUY, at or above it for a SELL.
\<close>

definition crossed_target :: "signal_kind \<Rightarrow> real \<Rightarrow> real \<Rightarrow> bool" where
  "crossed_target kind price target =
     (case kind of BUY \<Rightarrow> price \<ge> target | SELL \<Rightarrow> price \<le> target | HOLD \<Rightarrow> False)"

definition crossed_stop :: "signal_kind \<Rightarrow> real \<Rightarrow> real \<Rightarrow> bool" where
  "crossed_stop kind price stop =
     (case kind of BUY \<Rightarrow> price \<le> stop | SELL \<Rightarrow> price \<ge> stop | HOLD \<Rightarrow> False)"

subsection \<open>\<open>generateNewSignals\<close>\<close>

text \<open>\<open>String.prototype.toLowerCase\<close> on the ASCII letters.\<close>

definition toLowerCase :: "string \<Rightarrow> string" where
  "toLowerCase str =
     map (\<lambda>c. let n = (of_char c :: nat) in if 65 \<le> n \<and> n \<le> 90 then char_of (n + 32) else c) str"

text \<open>
  The object handed to \<open>generateTechnicalSignal\<close>; \<open>rank\<close> is \<open>1\<close> in the live feed and
  \<open>i + 1\<close> in the dashboard.
\<close>

definition as_market :: "Cryptocurrency \<Rightarrow> real \<Rightarrow> CoinGeckoMarket" where
  "as_market crypto rank =
     \<lparr>cg_id = c_id crypto,
      cg_symbol = toLowerCase (c_symbol crypto),
      cg_name = c_name crypto,
      cg_image = (case c_image crypto of None \<Rightarrow> [] | Some img \<Rightarrow> img),
      current_price = c_currentPrice crypto,
      market_cap = marketCap crypto,
      market_cap_rank = rank,
      fully_diluted_valuation = Some (marketCap crypto),
      total_volume = volume24h crypto,
      high_24h = c_currentPrice crypto * 1.05,
      low_24h = c_currentPrice crypto * 0.95,
      price_change_24h = priceChange24h crypto,
      price_change_percentage_24h = priceChangePercentage24h crypto,
      market_cap_change_24h = marketCap crypto * (priceChangePercentage24h crypto / 100),
      market_cap_change_percentage_24h = priceChangePercentage24h crypto,
      circulating_supply = marketCap crypto / c_currentPrice crypto,
      total_supply = None,
      max_supply = None,
      ath = c_currentPrice crypto * 2,
      ath_change_percentage = - 50,
      ath_date = ''2021-11-10T14:24:11.849Z'',
      atl = c_currentPrice crypto * 0.1,
      atl_change_percentage = 900,
      atl_date = ''2020-03-13T02:22:55.391Z'',
      roi = None,
      last_updated = lastUpdated crypto\<rparr>"

text \<open>
  What a run of the generator reads from outside: the signed-in user, the values of
  \<open>Math.random()\<close> in the order of the calls, the clock reading of \<open>toISOString()\<close>, the id
  built from \<open>Date.now()\<close> and the base-36 digits of a random draw, and whether
  \<open>recentSignals.create\<close> resolves for a given id. A rejected write throws out of the loop
  into the \<open>catch\<close>, and nothing is added to the state.
\<close>

record gen_env =
  gen_user :: "string option"
  random :: "nat \<Rightarrow> real"
  gen_now :: string
  gen_id :: "real \<Rightarrow> string"
  creates :: "string \<Rightarrow> bool"

text \<open>
  The object pushed to \<open>newSignals\<close> (and written to \<open>recentSignals\<close>) for an asset whose
  classification is not HOLD, \<open>k\<close> calls of \<open>Math.random()\<close> having been made before: one
  draw for the target, one for the stop-loss, one for the id. Target and stop-loss are
  computed in double arithmetic, in the source's order of operations: for a BUY target
  \<open>price * ((1 + random * 0.12) + 0.03)\<close>.
\<close>

definition new_live_signal :: "gen_env \<Rightarrow> Cryptocurrency \<Rightarrow> nat \<Rightarrow> LiveSignal" where
  "new_live_signal env crypto k =
     (let technicalSignal = generateTechnicalSignal (as_market crypto 1);
          target = (if signal technicalSignal = BUY
                    then fmul (c_currentPrice crypto)
                           (fadd (fadd 1 (fmul (random env k) (double 0.12))) (double 0.03))
                    else fmul (c_currentPrice crypto)
                           (fsub (fsub 1 (fmul (random env k) (double 0.12))) (double 0.03)));
          stop = (if signal technicalSignal = BUY
                  then fmul (c_currentPrice crypto)
                         (fsub (fsub 1 (fmul (random env (k + 1)) (double 0.06))) (double 0.02))
                  else fmul (c_currentPrice crypto)
                         (fadd (fadd 1 (fmul (random env (k + 1)) (double 0.06))) (double 0.02)));
          signalId = gen_id env (random env (k + 2))
      in \<lparr>sig_id = signalId,
          symbol = c_symbol crypto,
          signalType = signal technicalSignal,
          sig_strength = strength technicalSignal,
          confidenceScore = confidence technicalSignal,
          currentPrice = c_currentPrice crypto,
          targetPrice = Some target,
          stopLoss = Some stop,
          sig_reasoning = reasoning technicalSignal,
          createdAt = gen_now env,
          isActive = True,
          performancePercentage = 0,
          updatedAt = gen_now env\<rparr>)"

text \<open>
  The \<open>for\<close> loop over \<open>topCryptos\<close>; \<open>k\<close> counts the calls of \<open>Math.random()\<close> made so
  far, \<open>newSignals\<close> is the list built so far. \<open>None\<close> is the thrown exception.
\<close>

fun generateNewSignals_loop ::
  "gen_env \<Rightarrow> Cryptocurrency list \<Rightarrow> nat \<Rightarrow> LiveSignal list \<Rightarrow> LiveSignal list option" where
  "generateNewSignals_loop env [] k newSignals = Some newSignals"
| "generateNewSignals_loop env (crypto # rest) k newSignals =
     (if signal (generateTechnicalSignal (as_market crypto 1)) = HOLD
      then generateNewSignals_loop env rest k newSignals
      else if \<not> creates env (sig_id (new_live_signal env crypto k)) then None
      else generateNewSignals_loop env rest (k + 3)
             (newSignals @ [new_live_signal env crypto k]))"

text \<open>
  \<open>generateNewSignals\<close>: the new state and the signals minted by the run. The comparator
  of \<open>sort\<close> orders by falling absolute percentage change; the sort is stable.
\<close>

definition generateNewSignals ::
  "gen_env \<Rightarrow> Cryptocurrency list \<Rightarrow> feed \<Rightarrow> feed \<times> LiveSignal list" where
  "generateNewSignals env cryptos st =
     (if gen_user env = None \<or> cryptos = [] then (st, [])
      else
        (let topCryptos = take 6 (sort_key (\<lambda>c. - \<bar>priceChangePercentage24h c\<bar>) cryptos) in
         case generateNewSignals_loop env topCryptos 0 [] of
           None \<Rightarrow> (st, [])
         | Some newSignals \<Rightarrow>
             (st\<lparr>signals := take 20 (newSignals @ signals st)\<rparr>, newSignals)))"

section \<open>Signal generation in the dashboard (\<open>Dashboard.generateSignals\<close>)\<close>

record Signal =
  d_id :: string
  d_symbol :: string
  d_signalType :: signal_kind
  d_strength :: signal_strength
  d_confidenceScore :: nat
  d_currentPrice :: real
  d_targetPrice :: "real option"
  d_stopLoss :: "real option"
  d_reasoning :: string
  d_createdAt :: string

text \<open>
  The outside of a run: the user, the values of \<open>Math.random()\<close> in call order,
  \<open>Date.now()\<close> in milliseconds and the reading of \<open>toISOString()\<close>. A failing
  \<open>tradingSignals.create\<close> is caught inside the loop and changes nothing, so the database is
  not part of the model; the three draws for \<open>technicalIndicators\<close> are counted.
\<close>

record dash_env =
  dash_user :: "string option"
  dash_random :: "nat \<Rightarrow> real"
  dash_clock :: nat
  dash_now :: string

text \<open>
  The object pushed to \<open>newSignals\<close> at index \<open>i\<close>, \<open>k\<close> calls of \<open>Math.random()\<close> having
  been made before. The conditional expressions call \<open>Math.random()\<close> only in the BUY and
  SELL branches.
\<close>

definition new_signal :: "dash_env \<Rightarrow> Cryptocurrency \<Rightarrow> nat \<Rightarrow> nat \<Rightarrow> Signal" where
  "new_signal env crypto i k =
     (let technicalSignal = generateTechnicalSignal (as_market crypto (real i + 1));
          target = (if signal technicalSignal = BUY
                    then Some (fmul (c_currentPrice crypto)
                           (fadd (fadd 1 (fmul (dash_random env k) (double 0.15))) (double 0.05)))
                    else if signal technicalSignal = SELL
                    then Some (fmul (c_currentPrice crypto)
                           (fsub (fsub 1 (fmul (dash_random env k) (double 0.15))) (double 0.05)))
                    else None);
          stop = (if signal technicalSignal = BUY
                  then Some (fmul (c_currentPrice crypto)
                         (fsub (fsub 1 (fmul (dash_random env (k + 1)) (double 0.08)))
                            (double 0.02)))
                  else if signal technicalSignal = SELL
                  then Some (fmul (c_currentPrice crypto)
                         (fadd (fadd 1 (fmul (dash_random env (k + 1)) (double 0.08)))
                            (double 0.02)))
                  else None);
          signalId = ''signal_'' @ show_nat (dash_clock env) @ ''_'' @ show_nat i
      in \<lparr>d_id = signalId,
          d_symbol = c_symbol crypto,
          d_signalType = signal technicalSignal,
          d_strength = strength technicalSignal,
          d_confidenceScore = confidence technicalSignal,
          d_currentPrice = c_currentPrice crypto,
          d_targetPrice = target,
          d_stopLoss = stop,
          d_reasoning = reasoning technicalSignal,
          d_createdAt = dash_now env\<rparr>)"

text \<open>
  The number of calls of \<open>Math.random()\<close> in one iteration: two for a BUY or SELL, none for
  a HOLD, and three for the \<open>technicalIndicators\<close> of the database row.
\<close>

definition draws :: "signal_kind \<Rightarrow> nat" where
  "draws kind = (if kind = BUY \<or> kind = SELL then 2 else 0) + 3"

text \<open>The \<open>for\<close> loop from index \<open>i\<close>.\<close>

fun generateSignals_loop ::
  "dash_env \<Rightarrow> Cryptocurrency list \<Rightarrow> nat \<Rightarrow> nat \<Rightarrow> Signal list \<Rightarrow> Signal list" where
  "generateSignals_loop env [] i k newSignals = newSignals"
| "generateSignals_loop env (crypto # rest) i k newSignals =
     generateSignals_loop env rest (i + 1)
       (k + draws (d_signalType (new_signal env crypto i k)))
       (newSignals @ [new_signal env crypto i k])"

text \<open>
  \<open>generateSignals\<close>: the new \<open>signals\<close> state of the dashboard and the signals minted. The
  loop runs over the first \<open>min 5 (length topCryptos)\<close> entries of \<open>topCryptos\<close>.
\<close>

definition generateSignals ::
  "dash_env \<Rightarrow> Cryptocurrency list \<Rightarrow> Signal list \<Rightarrow> Signal list \<times> Signal list" where
  "generateSignals env cryptos prev =
     (if dash_user env = None then (prev, [])
      else
        (let topCryptos = take 8 cryptos;
             newSignals = generateSignals_loop env (take (min 5 (length topCryptos)) topCryptos) 0 0 []
         in (take 15 (newSignals @ prev), newSignals)))"

section \<open>Sample inputs\<close>

text \<open>A market list with one asset, \<open>SOL\<close>, at a given price and 24h percentage change.\<close>

definition market_of :: "real \<Rightarrow> real \<Rightarrow> Cryptocurrency list" where
  "market_of price pct =
     [\<lparr>c_id = ''solana'', c_symbol = ''SOL'', c_name = ''Solana'', c_currentPrice = price,
       priceChange24h = 2.80, priceChangePercentage24h = pct, marketCap = 44800000000,
       volume24h = 2150000000, lastUpdated = ''2024-01-01T00:00:00.000Z'',
       c_image = None\<rparr>]"

text \<open>A tick at clock reading \<open>t\<close> with a signed-in user and a database that accepts writes.\<close>

definition tick_at :: "string \<Rightarrow> tick_env" where
  "tick_at t = \<lparr>tick_user = Some ''user_1'', tick_now = t, persists = (\<lambda>i. True)\<rparr>"

text \<open>The same tick with a database that rejects every write.\<close>

definition tick_rejecting :: "string \<Rightarrow> tick_env" where
  "tick_rejecting t = \<lparr>tick_user = Some ''user_1'', tick_now = t, persists = (\<lambda>i. False)\<rparr>"

text \<open>An open BUY signal on \<open>SOL\<close> entered at 100 with target 114 and stop-loss 93.\<close>

definition sol_buy :: LiveSignal where
  "sol_buy =
     \<lparr>sig_id = ''live_signal_1'', symbol = ''SOL'', signalType = BUY, sig_strength = MODERATE,
      confidenceScore = 70, currentPrice = 100, targetPrice = Some 114, stopLoss = Some 93,
      sig_reasoning = ''Positive price action'', createdAt = ''09:00'', isActive = True,
      performancePercentage = 0, updatedAt = ''09:00''\<rparr>"

definition sol_feed :: feed where
  "sol_feed = \<lparr>signals = [sol_buy], signalUpdates = []\<rparr>"

text \<open>Generator environments whose every random draw is \<open>r\<close>.\<close>

definition gen_with :: "real \<Rightarrow> gen_env" where
  "gen_with r =
     \<lparr>gen_user = Some ''user_1'', random = (\<lambda>k. r), gen_now = ''09:00'',
      gen_id = (\<lambda>x. ''live_signal_1''), creates = (\<lambda>i. True)\<rparr>"

definition dash_with :: "real \<Rightarrow> dash_env" where
  "dash_with r =
     \<lparr>dash_user = Some ''user_1'', dash_random = (\<lambda>k. r), dash_clock = 1700000000000,
      dash_now = ''09:00''\<rparr>"

definition empty_feed :: feed where
  "empty_feed = \<lparr>signals = [], signalUpdates = []\<rparr>"

section \<open>Target and stop-loss ranges\<close>

text \<open>
  \<open>x\<close> lies between \<open>lo \<times> e\<close> and \<open>hi \<times> e\<close>, both ends included, up to a relative
  rounding error of \<open>2\<close> to the power \<open>-50\<close>.
\<close>

definition near_range :: "real \<Rightarrow> real \<Rightarrow> real \<Rightarrow> real \<Rightarrow> bool" where
  "near_range lo hi e x = (lo * e * (1 - 1 / 2 ^ 50) \<le> x \<and> x \<le> hi * e * (1 + 1 / 2 ^ 50))"

text \<open>
  The ranges in which the live feed places the target and the stop-loss of a signal minted
  at entry price \<open>e\<close>: for a BUY the target between \<open>1.03 e\<close> and \<open>1.15 e\<close> and the
  stop-loss between \<open>0.92 e\<close> and \<open>0.98 e\<close>; for a SELL the target between \<open>0.85 e\<close> and
  \<open>0.97 e\<close> and the stop-loss between \<open>1.02 e\<close> and \<open>1.08 e\<close>.
\<close>

definition live_ranges :: "LiveSignal \<Rightarrow> bool" where
  "live_ranges s =
     (case (targetPrice s, stopLoss s) of
        (Some t, Some l) \<Rightarrow>
          (let e = currentPrice s in
           if signalType s = BUY
           then near_range 1.03 1.15 e t \<and> near_range 0.92 0.98 e l
           else if signalType s = SELL
           then near_range 0.85 0.97 e t \<and> near_range 1.02 1.08 e l
           else False)
      | _ \<Rightarrow> False)"

text \<open>
  The ranges of the dashboard's generator: for a BUY the target between \<open>1.05 e\<close> and
  \<open>1.20 e\<close> and the stop-loss between \<open>0.90 e\<close> and \<open>0.98 e\<close>; for a SELL the target
  between \<open>0.80 e\<close> and \<open>0.95 e\<close> and the stop-loss between \<open>1.02 e\<close> and \<open>1.10 e\<close>; a
  HOLD has neither.
\<close>

definition dash_ranges :: "Signal \<Rightarrow> bool" where
  "dash_ranges s =
     (case (d_targetPrice s, d_stopLoss s) of
        (Some t, Some l) \<Rightarrow>
          (let e = d_currentPrice s in
           if d_signalType s = BUY
           then near_range 1.05 1.20 e t \<and> near_range 0.90 0.98 e l
           else if d_signalType s = SELL
           then near_range 0.80 0.95 e t \<and> near_range 1.02 1.10 e l
           else False)
      | (None, None) \<Rightarrow> d_signalType s = HOLD
      | _ \<Rightarrow> False)"

section \<open>Properties of the classifier\<close>

lemma volRatio_exceeds_iff:
  "0 \<le> cap \<Longrightarrow> volRatio_exceeds vol cap \<longleftrightarrow> vol > cap * 0.1"
  by (auto simp: volRatio_exceeds_def field_simps)

text \<open>
  Claim C1. For every snapshot (market capitalisation not negative), the kind, strength and
  confidence returned by \<open>generateTechnicalSignal\<close> are the row of the five-row decision
  table selected top to bottom with the first match winning.
\<close>

theorem generateTechnicalSignal_decision_table:
  assumes "0 \<le> market_cap crypto"
  shows "(signal (generateTechnicalSignal crypto),
          strength (generateTechnicalSignal crypto),
          confidence (generateTechnicalSignal crypto)) =
         decision_table (price_change_percentage_24h crypto) (total_volume crypto)
           (market_cap crypto)"
  using assms
  by (simp add: generateTechnicalSignal_def decision_table_def volRatio_exceeds_iff Let_def)

theorem generateTechnicalSignal_decision_table_witness:
  "0 \<le> market_cap (fallback_solana ''t'') \<and>
   (signal (generateTechnicalSignal (fallback_solana ''t'')),
    strength (generateTechnicalSignal (fallback_solana ''t'')),
    confidence (generateTechnicalSignal (fallback_solana ''t''))) = (BUY, MODERATE, 70)"
  using generateTechnicalSignal_decision_table [of "fallback_solana ''t''"]
  by (simp add: fallback_solana_def decision_table_def volRatio_exceeds_def)

text \<open>
  Claim C9. \<open>generateTechnicalSignal\<close> is a function of the 24h percentage change, the
  volume and the market cap alone: two snapshots that agree on these three numbers get the
  same kind, strength, confidence and reasoning string, whatever their other fields hold.
\<close>

theorem generateTechnicalSignal_deterministic:
  assumes "price_change_percentage_24h a = price_change_percentage_24h b"
    and "total_volume a = total_volume b"
    and "market_cap a = market_cap b"
  shows "generateTechnicalSignal a = generateTechnicalSignal b"
  using assms by (simp add: generateTechnicalSignal_def)

theorem generateTechnicalSignal_deterministic_witness:
  "price_change_percentage_24h (fallback_cardano ''10:00'') =
     price_change_percentage_24h ((fallback_cardano ''10:05'')\<lparr>current_price := 0.5\<rparr>) \<and>
   total_volume (fallback_cardano ''10:00'') =
     total_volume ((fallback_cardano ''10:05'')\<lparr>current_price := 0.5\<rparr>) \<and>
   market_cap (fallback_cardano ''10:00'') =
     market_cap ((fallback_cardano ''10:05'')\<lparr>current_price := 0.5\<rparr>) \<and>
   fallback_cardano ''10:00'' \<noteq> (fallback_cardano ''10:05'')\<lparr>current_price := 0.5\<rparr> \<and>
   generateTechnicalSignal (fallback_cardano ''10:00'') =
     generateTechnicalSignal ((fallback_cardano ''10:05'')\<lparr>current_price := 0.5\<rparr>)"
  using generateTechnicalSignal_deterministic
    [of "fallback_cardano ''10:00''" "(fallback_cardano ''10:05'')\<lparr>current_price := 0.5\<rparr>"]
  by (simp add: fallback_cardano_def)

section \<open>Properties of the retry loop and the fallback\<close>

lemma fetchWithRetry_all_fail:
  assumes "\<And>k. net url k = Failure"
  shows "fetchWithRetry net url 3 w =
         (Throw, w\<lparr>fetches := fetches w + 3, sleeps := sleeps w @ [1000, 2000]\<rparr>)"
  unfolding fetchWithRetry_def
  apply (subst fetchWithRetry_loop.simps)
  apply (simp add: assms Let_def)
  apply (subst fetchWithRetry_loop.simps)
  apply (simp add: assms Let_def)
  apply (subst fetchWithRetry_loop.simps)
  apply (simp add: assms Let_def)
  done

lemma fetch_pages_all_fail:
  assumes "\<And>url k. net url k = Failure" and "1 \<le> pages"
  shows "fetch_pages net limit perPage pages 1 [] w =
         (Throw, w\<lparr>fetches := fetches w + 3, sleeps := sleeps w @ [1000, 2000]\<rparr>)"
  using assms(2)
  by (subst fetch_pages.simps) (simp add: fetchWithRetry_all_fail [OF assms(1)])

lemma getTopCryptocurrencies_fallback:
  assumes "\<And>url k. net url k = Failure"
  shows "getTopCryptocurrencies net t limit w =
         (Some (getFallbackData t),
          w\<lparr>fetches := fetches w + 3, sleeps := sleeps w @ [1000, 2000]\<rparr>)"
proof (cases "limit \<le> 250")
  case True
  then show ?thesis
    by (simp add: getTopCryptocurrencies_def fetchWithRetry_all_fail [OF assms])
next
  case False
  then have "1 \<le> (limit + 249) div 250" by simp
  from fetch_pages_all_fail [of net, OF assms this] False show ?thesis
    by (simp add: getTopCryptocurrencies_def Let_def)
qed

text \<open>
  Claim C8, as the code has it. When every fetch fails, \<open>getTopCryptocurrencies\<close> makes
  exactly 3 attempts, waits 1000 ms and then 2000 ms between them (there is no third wait:
  the last failure is rethrown at once), and returns the built-in sample, which has exactly
  5 entries.
\<close>

theorem getTopCryptocurrencies_all_fail:
  assumes "\<forall>url k. net url k = Failure"
  shows "getTopCryptocurrencies net t limit w =
           (Some (getFallbackData t),
            w\<lparr>fetches := fetches w + 3, sleeps := sleeps w @ [1000, 2000]\<rparr>) \<and>
         length (getFallbackData t) = 5"
  using getTopCryptocurrencies_fallback [of net t limit w] assms
  by (simp add: getFallbackData_def)

theorem getTopCryptocurrencies_all_fail_witness:
  "(\<forall>url k. unreachable url k = Failure) \<and>
   getTopCryptocurrencies unreachable ''t'' 20 fresh_world =
     (Some (getFallbackData ''t''), \<lparr>fetches = 3, sleeps = [1000, 2000]\<rparr>) \<and>
   length (getFallbackData ''t'') = 5"
  using getTopCryptocurrencies_all_fail [of unreachable "''t''" 20 fresh_world]
  by (simp add: unreachable_def fresh_world_def)

text \<open>
  The claim as it is written asks for waits of 1 s, 2 s and 4 s. On the network where every
  request fails the delays handed to \<open>setTimeout\<close> are not these three.
\<close>

theorem getTopCryptocurrencies_backoff_counterexample:
  "sleeps (snd (getTopCryptocurrencies unreachable ''t'' 20 fresh_world)) \<noteq> [1000, 2000, 4000]"
  by (simp add: getTopCryptocurrencies_fallback unreachable_def fresh_world_def)

section \<open>Properties of the signal tracker\<close>

lemma length_loop [simp]:
  "length (signals (updateSignalPerformance_loop env cryptos ps st)) = length (signals st)"
  by (induction ps arbitrary: st) (auto split: option.splits simp: Let_def)

lemma sig_id_repriced [simp]: "sig_id (repriced env sg price s) = sig_id s"
  by (simp add: repriced_def)

lemma frame_repriced [simp]:
  "symbol (repriced env sg price s) = symbol s"
  "signalType (repriced env sg price s) = signalType s"
  "targetPrice (repriced env sg price s) = targetPrice s"
  "stopLoss (repriced env sg price s) = stopLoss s"
  "createdAt (repriced env sg price s) = createdAt s"
  by (simp_all add: repriced_def)

lemma ids_loop [simp]:
  "map sig_id (signals (updateSignalPerformance_loop env cryptos ps st)) = map sig_id (signals st)"
proof (induction ps arbitrary: st)
  case Nil
  show ?case by simp
next
  case (Cons a ps)
  have "map sig_id (map (\<lambda>s. if sig_id s = sig_id a then repriced env a p s else s) xs) = map sig_id xs"
    for p xs by (induction xs) auto
  with Cons show ?case by (auto split: option.splits simp: Let_def)
qed

lemma rows_loop:
  "signalUpdates (updateSignalPerformance_loop env cryptos ps st) =
   signalUpdates st @ appended_rows env cryptos ps"
  by (induction ps arbitrary: st) (auto split: option.splits simp: Let_def)

lemma loop_untouched:
  "i < length (signals st) \<Longrightarrow>
   (\<forall>s \<in> set ps. sig_id s = sig_id (signals st ! i) \<longrightarrow>
       find (\<lambda>c. c_symbol c = symbol s) cryptos = None) \<Longrightarrow>
   signals (updateSignalPerformance_loop env cryptos ps st) ! i = signals st ! i"
proof (induction ps arbitrary: st)
  case Nil
  then show ?case by simp
next
  case (Cons a ps)
  show ?case
  proof (cases "find (\<lambda>c. c_symbol c = symbol a) cryptos")
    case None
    then show ?thesis using Cons by simp
  next
    case (Some c)
    then have ne: "sig_id a \<noteq> sig_id (signals st ! i)" using Cons.prems by auto
    show ?thesis
    proof (cases "persists env (sig_id a)")
      case False
      then show ?thesis using Some by simp
    next
      case True
      let ?st' = "\<lparr>signals = map (\<lambda>s. if sig_id s = sig_id a
                                       then repriced env a (c_currentPrice c) s else s) (signals st),
                   signalUpdates = signalUpdates st @ [update_row env a (c_currentPrice c)]\<rparr>"
      have e: "signals ?st' ! i = signals st ! i" using Cons.prems(1) ne by simp
      have "signals (updateSignalPerformance_loop env cryptos ps ?st') ! i = signals ?st' ! i"
        apply (rule Cons.IH)
        using Cons.prems e by auto
      then show ?thesis using Some True e by (simp add: Let_def)
    qed
  qed
qed

lemma distinct_map_head:
  "distinct (map f (a # xs)) \<Longrightarrow> s \<in> set xs \<Longrightarrow> f s \<noteq> f a"
  by (metis distinct.simps(2) image_eqI list.simps(9) set_map)

lemma loop_repriced:
  assumes "distinct (map sig_id ps)" and "sg \<in> set ps"
    and "\<forall>s \<in> set ps. persists env (sig_id s)"
    and "find (\<lambda>c. c_symbol c = symbol sg) cryptos = Some crypto"
    and "i < length (signals st)" and "sig_id (signals st ! i) = sig_id sg"
  shows "signals (updateSignalPerformance_loop env cryptos ps st) ! i =
         repriced env sg (c_currentPrice crypto) (signals st ! i)"
  using assms
proof (induction ps arbitrary: st)
  case Nil
  then show ?case by simp
next
  case (Cons a ps)
  show ?case
  proof (cases "a = sg")
    case True
    let ?st' = "\<lparr>signals = map (\<lambda>s. if sig_id s = sig_id sg
                                     then repriced env sg (c_currentPrice crypto) s else s) (signals st),
                 signalUpdates = signalUpdates st @ [update_row env sg (c_currentPrice crypto)]\<rparr>"
    have e: "signals ?st' ! i = repriced env sg (c_currentPrice crypto) (signals st ! i)"
      using Cons.prems by simp
    have "\<forall>s \<in> set ps. sig_id s \<noteq> sig_id sg"
      using distinct_map_head [OF Cons.prems(1)] True by blast
    then have "signals (updateSignalPerformance_loop env cryptos ps ?st') ! i = signals ?st' ! i"
      using Cons.prems e by (intro loop_untouched) auto
    then show ?thesis using True Cons.prems e by (simp add: Let_def)
  next
    case False
    then have mem: "sg \<in> set ps" using Cons.prems by simp
    then have ne: "sig_id a \<noteq> sig_id sg"
      using distinct_map_head [OF Cons.prems(1)] by metis
    have d: "distinct (map sig_id ps)" and p: "\<forall>s \<in> set ps. persists env (sig_id s)"
      using Cons.prems by simp_all
    show ?thesis
    proof (cases "find (\<lambda>c. c_symbol c = symbol a) cryptos")
      case None
      then show ?thesis using Cons.IH [OF d mem p Cons.prems(4,5,6)] by simp
    next
      case (Some c)
      let ?st' = "\<lparr>signals = map (\<lambda>s. if sig_id s = sig_id a
                                       then repriced env a (c_currentPrice c) s else s) (signals st),
                   signalUpdates = signalUpdates st @ [update_row env a (c_currentPrice c)]\<rparr>"
      have e: "signals ?st' ! i = signals st ! i" using Cons.prems ne by simp
      have "signals (updateSignalPerformance_loop env cryptos ps ?st') ! i =
            repriced env sg (c_currentPrice crypto) (signals ?st' ! i)"
        using Cons.prems e by (intro Cons.IH [OF d mem p]) auto
      then show ?thesis using Some Cons.prems e by (simp add: Let_def)
    qed
  qed
qed

lemma signalId_update_row [simp]: "signalId (update_row env sg price) = sig_id sg"
  by (simp add: update_row_def Let_def)

lemma rows_of_signal:
  assumes "distinct (map sig_id ps)" and "sg \<in> set ps"
    and "\<forall>s \<in> set ps. persists env (sig_id s)"
    and "find (\<lambda>c. c_symbol c = symbol sg) cryptos = Some crypto"
  shows "filter (\<lambda>u. signalId u = sig_id sg) (appended_rows env cryptos ps) =
         [update_row env sg (c_currentPrice crypto)]"
  using assms
proof (induction ps)
  case Nil
  then show ?case by simp
next
  case (Cons a ps)
  have none: "filter (\<lambda>u. signalId u = k) (appended_rows env cryptos qs) = []"
    if "\<forall>s \<in> set qs. sig_id s \<noteq> k" for k qs
    using that by (induction qs) (auto split: option.splits)
  show ?case
  proof (cases "a = sg")
    case True
    then have "\<forall>s \<in> set ps. sig_id s \<noteq> sig_id sg"
      using distinct_map_head [OF Cons.prems(1)] by blast
    from none [OF this] True Cons.prems show ?thesis by simp
  next
    case False
    then have mem: "sg \<in> set ps" using Cons.prems by simp
    then have ne: "sig_id a \<noteq> sig_id sg"
      using distinct_map_head [OF Cons.prems(1)] by metis
    with Cons mem show ?thesis by (auto split: option.splits)
  qed
qed

lemma rows_origin:
  "u \<in> set (appended_rows env cryptos ps) \<Longrightarrow>
   \<exists>s \<in> set ps. \<exists>c. find (\<lambda>c. c_symbol c = symbol s) cryptos = Some c \<and>
      u = update_row env s (c_currentPrice c)"
  by (induction ps) (auto split: option.splits if_splits)

lemma length_update [simp]:
  "length (signals (updateSignalPerformance env cryptos st)) = length (signals st)"
  by (simp add: updateSignalPerformance_def)

lemma ids_update [simp]:
  "map sig_id (signals (updateSignalPerformance env cryptos st)) = map sig_id (signals st)"
  by (simp add: updateSignalPerformance_def)

lemma same_id_same_signal:
  assumes "distinct (map sig_id xs)" and "s \<in> set xs" and "i < length xs"
    and "sig_id s = sig_id (xs ! i)"
  shows "s = xs ! i"
proof -
  from assms(2) obtain j where j: "j < length xs" "xs ! j = s"
    by (auto simp: in_set_conv_nth)
  then have "map sig_id xs ! j = map sig_id xs ! i" using assms(3,4) by simp
  moreover have "j < length (map sig_id xs)" "i < length (map sig_id xs)"
    using j(1) assms(3) by simp_all
  ultimately have "j = i" using assms(1) nth_eq_iff_index_eq by blast
  with j show ?thesis by simp
qed

lemma update_untouched:
  assumes "distinct (map sig_id (signals st))" and "i < length (signals st)"
    and "\<not> isActive (signals st ! i) \<or>
         find (\<lambda>c. c_symbol c = symbol (signals st ! i)) cryptos = None"
  shows "signals (updateSignalPerformance env cryptos st) ! i = signals st ! i"
proof -
  have "\<forall>s \<in> set (filter isActive (signals st)). sig_id s = sig_id (signals st ! i) \<longrightarrow>
          find (\<lambda>c. c_symbol c = symbol s) cryptos = None"
  proof (intro ballI impI)
    fix s assume s: "s \<in> set (filter isActive (signals st))" "sig_id s = sig_id (signals st ! i)"
    then have "s = signals st ! i"
      using same_id_same_signal [OF assms(1) _ assms(2)] by simp
    with s(1) assms(3) show "find (\<lambda>c. c_symbol c = symbol s) cryptos = None" by auto
  qed
  from loop_untouched [OF assms(2) this] show ?thesis
    by (simp add: updateSignalPerformance_def)
qed

lemma update_repriced:
  assumes "tick_user env \<noteq> None"
    and "\<forall>s \<in> set (signals st). persists env (sig_id s)"
    and "distinct (map sig_id (signals st))"
    and "i < length (signals st)"
    and "isActive (signals st ! i)"
    and "find (\<lambda>c. c_symbol c = symbol (signals st ! i)) cryptos = Some crypto"
  shows "signals (updateSignalPerformance env cryptos st) ! i =
           repriced env (signals st ! i) (c_currentPrice crypto) (signals st ! i)"
    and "filter (\<lambda>u. signalId u = sig_id (signals st ! i))
           (rows_since st (updateSignalPerformance env cryptos st)) =
         [update_row env (signals st ! i) (c_currentPrice crypto)]"
proof -
  let ?ps = "filter isActive (signals st)"
  have ne: "signals st \<noteq> []" "cryptos \<noteq> []" using assms(4,6) by auto
  have u: "updateSignalPerformance env cryptos st =
           updateSignalPerformance_loop env cryptos ?ps st"
    using ne assms(1) by (auto simp: updateSignalPerformance_def)
  have d: "distinct (map sig_id ?ps)" using assms(3) by (simp add: distinct_map_filter)
  have m: "signals st ! i \<in> set ?ps" using assms(4,5) by simp
  have p: "\<forall>s \<in> set ?ps. persists env (sig_id s)" using assms(2) by simp
  from loop_repriced [OF d m p assms(6) assms(4)]
  show "signals (updateSignalPerformance env cryptos st) ! i =
           repriced env (signals st ! i) (c_currentPrice crypto) (signals st ! i)"
    by (simp add: u)
  from rows_of_signal [OF d m p assms(6)]
  show "filter (\<lambda>u. signalId u = sig_id (signals st ! i))
           (rows_since st (updateSignalPerformance env cryptos st)) =
         [update_row env (signals st ! i) (c_currentPrice crypto)]"
    by (simp add: u rows_since_def rows_loop)
qed

text \<open>
  Claim C3, as the code has it. One tick on an open BUY or SELL signal whose target and
  stop-loss are set and not zero (a value of 0 counts as absent), with a signed-in user,
  database writes that are accepted, unique ids and the symbol quoted at
  \<open>price\<close>: when the price has crossed the target the signal is closed and the row logged
  for it says \<open>hit_target\<close>; else, when the price has crossed the stop-loss, it is closed
  with \<open>hit_stop_loss\<close>; otherwise it stays open, with the performance recomputed and the
  update time set to the clock reading.
\<close>

theorem updateSignalPerformance_transition:
  assumes "tick_user env \<noteq> None"
    and "\<forall>s \<in> set (signals st). persists env (sig_id s)"
    and "distinct (map sig_id (signals st))"
    and "i < length (signals st)"
    and "isActive (signals st ! i)"
    and "signalType (signals st ! i) = BUY \<or> signalType (signals st ! i) = SELL"
    and "targetPrice (signals st ! i) = Some target" and "target \<noteq> 0"
    and "stopLoss (signals st ! i) = Some stop" and "stop \<noteq> 0"
    and "find (\<lambda>c. c_symbol c = symbol (signals st ! i)) cryptos = Some crypto"
  shows
    "let sg = signals st ! i;
         price = c_currentPrice crypto;
         st' = updateSignalPerformance env cryptos st;
         sg' = signals st' ! i;
         rows = filter (\<lambda>u. signalId u = sig_id sg) (rows_since st st')
     in if crossed_target (signalType sg) price target
        then \<not> isActive sg' \<and> map updateType rows = [''hit_target'']
        else if crossed_stop (signalType sg) price stop
        then \<not> isActive sg' \<and> map updateType rows = [''hit_stop_loss'']
        else isActive sg' \<and> map updateType rows = [''price_update''] \<and>
             performancePercentage sg' =
               (if signalType sg = BUY
                then (price - currentPrice sg) / currentPrice sg * 100
                else (currentPrice sg - price) / currentPrice sg * 100) \<and>
             updatedAt sg' = tick_now env"
proof -
  note r = update_repriced [OF assms(1,2,3,4,5,11)]
  show ?thesis
    using assms(6,7,8,9,10)
    by (auto simp: Let_def r repriced_def update_row_def check_target_stop_def truthy_def
        crossed_target_def crossed_stop_def performance_def)
qed

theorem updateSignalPerformance_transition_witness:
  "isActive (signals (updateSignalPerformance (tick_at ''09:05'') (market_of 105 3) sol_feed) ! 0) \<and>
   performancePercentage
     (signals (updateSignalPerformance (tick_at ''09:05'') (market_of 105 3) sol_feed) ! 0) = 5 \<and>
   updatedAt (signals (updateSignalPerformance (tick_at ''09:05'') (market_of 105 3) sol_feed) ! 0) =
     ''09:05'' \<and>
   isActive (signals (updateSignalPerformance (tick_at ''09:05'') (market_of 114 3) sol_feed) ! 0) =
     False \<and>
   map updateType
     (rows_since sol_feed (updateSignalPerformance (tick_at ''09:05'') (market_of 114 3) sol_feed)) =
     [''hit_target''] \<and>
   isActive (signals (updateSignalPerformance (tick_at ''09:05'') (market_of 93 3) sol_feed) ! 0) =
     False \<and>
   map updateType
     (rows_since sol_feed (updateSignalPerformance (tick_at ''09:05'') (market_of 93 3) sol_feed)) =
     [''hit_stop_loss'']"
proof -
  have rows: "rows_since sol_feed (updateSignalPerformance (tick_at t) (market_of p 3) sol_feed) =
      filter (\<lambda>u. signalId u = sig_id (signals sol_feed ! 0))
        (rows_since sol_feed (updateSignalPerformance (tick_at t) (market_of p 3) sol_feed))"
    for t p
    by (simp add: updateSignalPerformance_def rows_since_def tick_at_def market_of_def
        sol_feed_def sol_buy_def)
  from updateSignalPerformance_transition
    [of "tick_at ''09:05''" sol_feed 0 114 93 "market_of 105 3" "hd (market_of 105 3)"]
  have a: "isActive (signals (updateSignalPerformance (tick_at ''09:05'') (market_of 105 3)
        sol_feed) ! 0) \<and>
      performancePercentage (signals (updateSignalPerformance (tick_at ''09:05'')
        (market_of 105 3) sol_feed) ! 0) = 5 \<and>
      updatedAt (signals (updateSignalPerformance (tick_at ''09:05'') (market_of 105 3)
        sol_feed) ! 0) = ''09:05''"
    by (simp add: tick_at_def sol_feed_def sol_buy_def market_of_def crossed_target_def
        crossed_stop_def Let_def)
  from updateSignalPerformance_transition
    [of "tick_at ''09:05''" sol_feed 0 114 93 "market_of 114 3" "hd (market_of 114 3)"]
  have b: "isActive (signals (updateSignalPerformance (tick_at ''09:05'') (market_of 114 3)
        sol_feed) ! 0) = False \<and>
      map updateType (filter (\<lambda>u. signalId u = sig_id (signals sol_feed ! 0))
        (rows_since sol_feed (updateSignalPerformance (tick_at ''09:05'') (market_of 114 3)
           sol_feed))) = [''hit_target'']"
    by (simp add: tick_at_def sol_feed_def sol_buy_def market_of_def crossed_target_def
        crossed_stop_def Let_def)
  from updateSignalPerformance_transition
    [of "tick_at ''09:05''" sol_feed 0 114 93 "market_of 93 3" "hd (market_of 93 3)"]
  have c: "isActive (signals (updateSignalPerformance (tick_at ''09:05'') (market_of 93 3)
        sol_feed) ! 0) = False \<and>
      map updateType (filter (\<lambda>u. signalId u = sig_id (signals sol_feed ! 0))
        (rows_since sol_feed (updateSignalPerformance (tick_at ''09:05'') (market_of 93 3)
           sol_feed))) = [''hit_stop_loss'']"
    by (simp add: tick_at_def sol_feed_def sol_buy_def market_of_def crossed_target_def
        crossed_stop_def Let_def)
  from a b c rows [of "''09:05''" 114] rows [of "''09:05''" 93] show ?thesis by simp
qed

text \<open>
  The claim as it is written speaks of every signal whose target is defined and of every
  tick. A BUY whose target is defined as 0 and which is quoted at 110 is left open, and the
  row logged says \<open>price_update\<close>. A BUY with target 114 quoted at 120 in a tick whose
  database write is rejected is left open as well, and no row is logged.
\<close>

theorem defined_target_not_closed_counterexample:
  "targetPrice (sol_buy\<lparr>targetPrice := Some 0\<rparr>) = Some 0 \<and>
   map isActive
     (signals (updateSignalPerformance (tick_at ''09:05'') (market_of 110 3)
        (sol_feed\<lparr>signals := [sol_buy\<lparr>targetPrice := Some 0\<rparr>]\<rparr>))) = [True] \<and>
   map updateType
     (rows_since (sol_feed\<lparr>signals := [sol_buy\<lparr>targetPrice := Some 0\<rparr>]\<rparr>)
        (updateSignalPerformance (tick_at ''09:05'') (market_of 110 3)
           (sol_feed\<lparr>signals := [sol_buy\<lparr>targetPrice := Some 0\<rparr>]\<rparr>))) = [''price_update''] \<and>
   targetPrice sol_buy = Some 114 \<and>
   map isActive
     (signals (updateSignalPerformance (tick_rejecting ''09:05'') (market_of 120 3) sol_feed)) =
     [True] \<and>
   rows_since sol_feed
     (updateSignalPerformance (tick_rejecting ''09:05'') (market_of 120 3) sol_feed) = []"
  by (simp add: updateSignalPerformance_def tick_at_def tick_rejecting_def market_of_def
      sol_feed_def sol_buy_def rows_since_def repriced_def update_row_def check_target_stop_def
      truthy_def Let_def)

text \<open>
  Claim C4. With unique ids, a signal whose symbol is not quoted in the latest market list
  is, after the tick, the very record it was before (open flag, performance, prices and
  timestamps included); and the loop, on meeting such a signal, goes on with the rest.
\<close>

theorem updateSignalPerformance_symbol_absent:
  assumes "distinct (map sig_id (signals st))"
    and "i < length (signals st)"
    and "symbol (signals st ! i) \<notin> set (map c_symbol cryptos)"
  shows "signals (updateSignalPerformance env cryptos st) ! i = signals st ! i \<and>
         updateSignalPerformance_loop env cryptos (signals st ! i # rest) st' =
           updateSignalPerformance_loop env cryptos rest st'"
proof -
  have "\<forall>c \<in> set cryptos. c_symbol c \<noteq> symbol (signals st ! i)"
    using assms(3) by (metis image_eqI set_map)
  then have none: "find (\<lambda>c. c_symbol c = symbol (signals st ! i)) cryptos = None"
    by (simp add: find_None_iff)
  then show ?thesis using update_untouched [OF assms(1,2)] by simp
qed

theorem updateSignalPerformance_symbol_absent_witness:
  "signals (updateSignalPerformance (tick_at ''09:05'') (market_of 105 3)
      (sol_feed\<lparr>signals := [sol_buy\<lparr>symbol := ''DOGE''\<rparr>]\<rparr>)) ! 0 = sol_buy\<lparr>symbol := ''DOGE''\<rparr>"
  using updateSignalPerformance_symbol_absent
    [of "sol_feed\<lparr>signals := [sol_buy\<lparr>symbol := ''DOGE''\<rparr>]\<rparr>" 0 "market_of 105 3"
        "tick_at ''09:05''"]
  by (simp add: sol_feed_def market_of_def)

lemma reticks_invariant:
  "length (signals (reticks ticks st)) = length (signals st) \<and>
   map sig_id (signals (reticks ticks st)) = map sig_id (signals st)"
  by (induction ticks arbitrary: st) auto

text \<open>
  Claim C5. With unique ids, a signal that is closed stays closed through every sequence of
  ticks; indeed its record is not touched at all.
\<close>

theorem closed_signal_never_reopens:
  assumes "distinct (map sig_id (signals st))"
    and "i < length (signals st)"
    and "\<not> isActive (signals st ! i)"
  shows "\<not> isActive (signals (reticks ticks st) ! i) \<and>
         signals (reticks ticks st) ! i = signals st ! i"
  using assms
proof (induction ticks arbitrary: st)
  case Nil
  then show ?case by simp
next
  case (Cons tick ticks)
  obtain env cryptos where tick: "tick = (env, cryptos)" by (cases tick)
  let ?st1 = "updateSignalPerformance env cryptos st"
  have same: "signals ?st1 ! i = signals st ! i"
    using update_untouched [OF Cons.prems(1,2)] Cons.prems(3) by simp
  have "\<not> isActive (signals (reticks ticks ?st1) ! i) \<and>
        signals (reticks ticks ?st1) ! i = signals ?st1 ! i"
    using Cons.prems same by (intro Cons.IH) simp_all
  then show ?case using tick same Cons.prems(3) by simp
qed

theorem closed_signal_never_reopens_witness:
  "\<not> isActive (signals (reticks [(tick_at ''09:05'', market_of 120 3), (tick_at ''09:10'', market_of 105 3)]
      sol_feed) ! 0)"
proof -
  let ?st1 = "updateSignalPerformance (tick_at ''09:05'') (market_of 120 3) sol_feed"
  have c: "distinct (map sig_id (signals ?st1)) \<and> 0 < length (signals ?st1) \<and>
           \<not> isActive (signals ?st1 ! 0)"
    by (simp add: updateSignalPerformance_def tick_at_def market_of_def sol_feed_def sol_buy_def
        repriced_def check_target_stop_def truthy_def Let_def)
  from closed_signal_never_reopens [of ?st1 0 "[(tick_at ''09:10'', market_of 105 3)]"] c
  show ?thesis by simp
qed

lemma update_appends:
  "signalUpdates (updateSignalPerformance env cryptos st) =
   signalUpdates st @ rows_since st (updateSignalPerformance env cryptos st)"
  by (simp add: updateSignalPerformance_def rows_since_def rows_loop)

lemma reticks_extends:
  "\<exists>rows. signalUpdates (reticks ticks st) = signalUpdates st @ rows"
proof (induction ticks arbitrary: st)
  case Nil
  show ?case by simp
next
  case (Cons tick ticks)
  obtain env cryptos where tick: "tick = (env, cryptos)" by (cases tick)
  from Cons.IH [of "updateSignalPerformance env cryptos st"] update_appends [of env cryptos st]
  show ?case using tick by (metis append.assoc reticks.simps(2))
qed

lemma rows_since_append:
  "signalUpdates st' = signalUpdates st @ rows \<Longrightarrow> rows_since st st' = rows"
  by (simp add: rows_since_def)

lemma rows_since_step:
  "rows_since st (reticks ((env, cryptos) # ticks) st) =
   rows_since st (updateSignalPerformance env cryptos st) @
   rows_since (updateSignalPerformance env cryptos st)
     (reticks ticks (updateSignalPerformance env cryptos st))"
proof -
  let ?st1 = "updateSignalPerformance env cryptos st"
  obtain r1 where r1: "signalUpdates ?st1 = signalUpdates st @ r1"
    using update_appends by blast
  obtain r2 where r2: "signalUpdates (reticks ticks ?st1) = signalUpdates ?st1 @ r2"
    using reticks_extends by blast
  have "signalUpdates (reticks ((env, cryptos) # ticks) st) = signalUpdates st @ (r1 @ r2)"
    using r1 r2 by simp
  from rows_since_append [OF this] rows_since_append [OF r1] rows_since_append [OF r2]
  show ?thesis by simp
qed

lemma update_rows_origin:
  assumes "u \<in> set (rows_since st (updateSignalPerformance env cryptos st))"
  shows "\<exists>s \<in> set (signals st). \<exists>price. u = update_row env s price"
proof -
  from assms have "u \<in> set (appended_rows env cryptos (filter isActive (signals st)))"
    by (auto simp: updateSignalPerformance_def rows_since_def rows_loop split: if_splits)
  from rows_origin [OF this] show ?thesis by auto
qed

lemma branch_needs_truthy:
  "fst (check_target_stop sg price) = ''hit_target'' \<Longrightarrow> truthy (targetPrice sg)"
  "fst (check_target_stop sg price) = ''hit_stop_loss'' \<Longrightarrow> truthy (stopLoss sg)"
  by (auto simp: check_target_stop_def split: if_splits)

lemma updateType_update_row:
  "updateType (update_row env sg price) = ''hit_target'' \<longleftrightarrow>
     fst (check_target_stop sg price) = ''hit_target''"
  "updateType (update_row env sg price) = ''hit_stop_loss'' \<longleftrightarrow>
     fst (check_target_stop sg price) = ''hit_stop_loss''"
  by (auto simp: update_row_def Let_def)

lemma targets_loop [simp]:
  "map targetPrice (signals (updateSignalPerformance_loop env cryptos ps st)) =
   map targetPrice (signals st)"
proof (induction ps arbitrary: st)
  case Nil
  show ?case by simp
next
  case (Cons a ps)
  have "map targetPrice (map (\<lambda>s. if sig_id s = sig_id a then repriced env a p s else s) xs) =
        map targetPrice xs" for p xs by (induction xs) auto
  with Cons show ?case by (auto split: option.splits simp: Let_def)
qed

lemma stops_loop [simp]:
  "map stopLoss (signals (updateSignalPerformance_loop env cryptos ps st)) =
   map stopLoss (signals st)"
proof (induction ps arbitrary: st)
  case Nil
  show ?case by simp
next
  case (Cons a ps)
  have "map stopLoss (map (\<lambda>s. if sig_id s = sig_id a then repriced env a p s else s) xs) =
        map stopLoss xs" for p xs by (induction xs) auto
  with Cons show ?case by (auto split: option.splits simp: Let_def)
qed

lemma targets_update [simp]:
  "map targetPrice (signals (updateSignalPerformance env cryptos st)) =
   map targetPrice (signals st)"
  by (simp add: updateSignalPerformance_def)

lemma stops_update [simp]:
  "map stopLoss (signals (updateSignalPerformance env cryptos st)) = map stopLoss (signals st)"
  by (simp add: updateSignalPerformance_def)

lemma nth_of_map_eq:
  "map f xs = map f ys \<Longrightarrow> i < length ys \<Longrightarrow> f (xs ! i) = f (ys ! i)"
  by (metis length_map nth_map)

lemma falsy_never_closes:
  assumes "distinct (map sig_id (signals st))" and "i < length (signals st)"
    and "sig_id (signals st ! i) = k"
    and "u \<in> set (rows_since st (reticks ticks st))" and "signalId u = k"
  shows "(updateType u = ''hit_target'' \<longrightarrow> truthy (targetPrice (signals st ! i))) \<and>
         (updateType u = ''hit_stop_loss'' \<longrightarrow> truthy (stopLoss (signals st ! i)))"
  using assms
proof (induction ticks arbitrary: st)
  case Nil
  then show ?case by (simp add: rows_since_def)
next
  case (Cons tick ticks)
  obtain env cryptos where tick: "tick = (env, cryptos)" by (cases tick)
  let ?st1 = "updateSignalPerformance env cryptos st"
  have "u \<in> set (rows_since st ?st1 @ rows_since ?st1 (reticks ticks ?st1))"
    using Cons.prems(4) unfolding tick rows_since_step .
  then consider (now) "u \<in> set (rows_since st ?st1)"
    | (later) "u \<in> set (rows_since ?st1 (reticks ticks ?st1))"
    by auto
  then show ?case
  proof cases
    case now
    from update_rows_origin [OF now] obtain s price
      where s: "s \<in> set (signals st)" "u = update_row env s price" by blast
    then have "sig_id s = sig_id (signals st ! i)" using Cons.prems(3,5) by simp
    then have "s = signals st ! i"
      using same_id_same_signal [OF Cons.prems(1) s(1) Cons.prems(2)] by simp
    then show ?thesis using s(2) branch_needs_truthy [of s price]
      by (simp add: updateType_update_row)
  next
    case later
    have d: "distinct (map sig_id (signals ?st1))" and l: "i < length (signals ?st1)"
      using Cons.prems(1,2) by simp_all
    have k: "sig_id (signals ?st1 ! i) = k"
      using nth_of_map_eq [OF ids_update Cons.prems(2), of env cryptos] Cons.prems(3) by simp
    have t: "targetPrice (signals ?st1 ! i) = targetPrice (signals st ! i)"
      using nth_of_map_eq [OF targets_update Cons.prems(2), of env cryptos] by simp
    have p: "stopLoss (signals ?st1 ! i) = stopLoss (signals st ! i)"
      using nth_of_map_eq [OF stops_update Cons.prems(2), of env cryptos] by simp
    from Cons.IH [OF d l k later Cons.prems(5)] t p show ?thesis by simp
  qed
qed

text \<open>
  Claim C2, at its failing input. An open BUY signal entered at 100 is re-priced at 105 and
  then at 110.25. After the first tick the record's only price field holds 105, no longer the
  entry price; the second tick measures from 105 and writes 5 percent, where
  \<open>(110.25 - 100) / 100 \<times> 100\<close> is 10.25.
\<close>

theorem entry_price_overwritten_by_retick:
  "map currentPrice
     (signals (reticks [(tick_at ''09:05'', market_of 105 3)] sol_feed)) = [105] \<and>
   map isActive
     (signals (reticks [(tick_at ''09:05'', market_of 105 3)] sol_feed)) = [True] \<and>
   map performancePercentage
     (signals (reticks [(tick_at ''09:05'', market_of 105 3),
                        (tick_at ''09:10'', market_of 110.25 3)] sol_feed)) = [5]"
  by (simp add: updateSignalPerformance_def tick_at_def market_of_def sol_feed_def sol_buy_def
      repriced_def check_target_stop_def truthy_def performance_def Let_def)

text \<open>
  Claim C10. A target price of exactly 0 is treated as absent: the \<open>if\<close> chain never
  answers \<open>hit_target\<close> for such a signal, at any price, and (ids being unique) no row
  logged for it through any sequence of ticks says \<open>hit_target\<close>. Likewise a stop-loss of
  0 and \<open>hit_stop_loss\<close>.
\<close>

theorem zero_target_or_stop_never_hit:
  assumes "distinct (map sig_id (signals st))" and "i < length (signals st)"
  shows "(targetPrice sg = Some 0 \<longrightarrow> fst (check_target_stop sg price) \<noteq> ''hit_target'') \<and>
         (stopLoss sg = Some 0 \<longrightarrow> fst (check_target_stop sg price) \<noteq> ''hit_stop_loss'') \<and>
         (targetPrice (signals st ! i) = Some 0 \<longrightarrow>
            (\<forall>u \<in> set (rows_since st (reticks ticks st)).
               signalId u = sig_id (signals st ! i) \<longrightarrow> updateType u \<noteq> ''hit_target'')) \<and>
         (stopLoss (signals st ! i) = Some 0 \<longrightarrow>
            (\<forall>u \<in> set (rows_since st (reticks ticks st)).
               signalId u = sig_id (signals st ! i) \<longrightarrow> updateType u \<noteq> ''hit_stop_loss''))"
proof -
  have a: "targetPrice sg = Some 0 \<longrightarrow> fst (check_target_stop sg price) \<noteq> ''hit_target''"
    using branch_needs_truthy(1) [of sg price] by (auto simp: truthy_def)
  have b: "stopLoss sg = Some 0 \<longrightarrow> fst (check_target_stop sg price) \<noteq> ''hit_stop_loss''"
    using branch_needs_truthy(2) [of sg price] by (auto simp: truthy_def)
  have c: "targetPrice (signals st ! i) = Some 0 \<longrightarrow>
            (\<forall>u \<in> set (rows_since st (reticks ticks st)).
               signalId u = sig_id (signals st ! i) \<longrightarrow> updateType u \<noteq> ''hit_target'')"
    using falsy_never_closes [OF assms refl] by (auto simp: truthy_def)
  have d: "stopLoss (signals st ! i) = Some 0 \<longrightarrow>
            (\<forall>u \<in> set (rows_since st (reticks ticks st)).
               signalId u = sig_id (signals st ! i) \<longrightarrow> updateType u \<noteq> ''hit_stop_loss'')"
    using falsy_never_closes [OF assms refl] by (auto simp: truthy_def)
  from a b c d show ?thesis by blast
qed

theorem zero_target_or_stop_never_hit_witness:
  "targetPrice (sol_buy\<lparr>targetPrice := Some 0\<rparr>) = Some 0 \<and>
   fst (check_target_stop (sol_buy\<lparr>targetPrice := Some 0\<rparr>) 120) \<noteq> ''hit_target'' \<and>
   map updateType
     (rows_since (sol_feed\<lparr>signals := [sol_buy\<lparr>targetPrice := Some 0\<rparr>]\<rparr>)
        (reticks [(tick_at ''09:05'', market_of 120 3)]
           (sol_feed\<lparr>signals := [sol_buy\<lparr>targetPrice := Some 0\<rparr>]\<rparr>))) = [''price_update'']"
proof -
  let ?st = "sol_feed\<lparr>signals := [sol_buy\<lparr>targetPrice := Some 0\<rparr>]\<rparr>"
  have h: "distinct (map sig_id (signals ?st))" "0 < length (signals ?st)"
    by (simp_all add: sol_feed_def)
  have e: "map updateType (rows_since ?st (reticks [(tick_at ''09:05'', market_of 120 3)] ?st)) =
           [''price_update'']"
    by (simp add: updateSignalPerformance_def tick_at_def market_of_def sol_feed_def sol_buy_def
        rows_since_def update_row_def check_target_stop_def truthy_def Let_def)
  from zero_target_or_stop_never_hit
    [OF h, of "sol_buy\<lparr>targetPrice := Some 0\<rparr>" 120 "[(tick_at ''09:05'', market_of 120 3)]"] e
  show ?thesis by (simp add: sol_feed_def sol_buy_def)
qed

section \<open>Properties of the generators\<close>

lemma generateNewSignals_loop_all:
  assumes "generateNewSignals_loop env cs k acc = Some r"
    and "\<forall>s \<in> set acc. P s"
    and "\<And>c j. signal (generateTechnicalSignal (as_market c 1)) \<noteq> HOLD \<Longrightarrow>
           P (new_live_signal env c j)"
  shows "\<forall>s \<in> set r. P s"
  using assms(1,2)
proof (induction cs arbitrary: k acc)
  case Nil
  then show ?case by simp
next
  case (Cons c cs)
  show ?case
  proof (cases "signal (generateTechnicalSignal (as_market c 1)) = HOLD")
    case True
    with Cons.prems(1) have "generateNewSignals_loop env cs k acc = Some r" by simp
    from Cons.IH [OF this Cons.prems(2)] show ?thesis .
  next
    case False
    from Cons.prems(1) False
    have run: "generateNewSignals_loop env cs (k + 3) (acc @ [new_live_signal env c k]) = Some r"
      by (simp split: if_splits)
    have "P (new_live_signal env c k)" using assms(3) False by blast
    then have "\<forall>s \<in> set (acc @ [new_live_signal env c k]). P s" using Cons.prems(2) by simp
    from Cons.IH [OF run this] show ?thesis .
  qed
qed

lemma generateNewSignals_all:
  assumes "\<And>c j. signal (generateTechnicalSignal (as_market c 1)) \<noteq> HOLD \<Longrightarrow>
           P (new_live_signal env c j)"
  shows "\<forall>s \<in> set (snd (generateNewSignals env cryptos st)). P s"
proof (cases "generateNewSignals_loop env
    (take 6 (sort_key (\<lambda>c. - \<bar>priceChangePercentage24h c\<bar>) cryptos)) 0 []")
  case None
  then show ?thesis by (simp add: generateNewSignals_def)
next
  case (Some r)
  have "\<forall>s \<in> set r. P s"
    by (rule generateNewSignals_loop_all [OF Some]) (simp, rule assms)
  with Some show ?thesis by (simp add: generateNewSignals_def)
qed

lemma kind_rank_free:
  "signal (generateTechnicalSignal (as_market c r)) = signal (generateTechnicalSignal (as_market c 1))"
  by (simp add: generateTechnicalSignal_def as_market_def)

lemma kind_new_signal:
  "d_signalType (new_signal env c i k) = signal (generateTechnicalSignal (as_market c 1))"
  using kind_rank_free [of c "real i + 1"] by (simp add: new_signal_def Let_def)

lemma generateSignals_loop_kinds:
  "map d_signalType (generateSignals_loop env cs i k acc) =
   map d_signalType acc @ map (\<lambda>c. signal (generateTechnicalSignal (as_market c 1))) cs"
  by (induction cs arbitrary: i k acc) (simp_all add: kind_new_signal)

lemma generateSignals_loop_all:
  assumes "\<forall>s \<in> set acc. P s" and "\<And>c i k. P (new_signal env c i k)"
  shows "\<forall>s \<in> set (generateSignals_loop env cs i k acc). P s"
  using assms(1)
proof (induction cs arbitrary: i k acc)
  case Nil
  then show ?case by simp
next
  case (Cons c cs)
  have "\<forall>s \<in> set (acc @ [new_signal env c i k]). P s" using Cons.prems assms(2) by simp
  from Cons.IH [OF this] show ?case by simp
qed

lemma generateSignals_all:
  assumes "\<And>c i k. P (new_signal env c i k)"
  shows "\<forall>s \<in> set (snd (generateSignals env cryptos prev)). P s"
  using generateSignals_loop_all [of "[]" P env, OF _ assms]
  by (simp add: generateSignals_def Let_def)

text \<open>
  Claim C6, as the code has it. Every signal minted by the live feed's
  \<open>generateNewSignals\<close> is a BUY or a SELL. The dashboard's \<open>generateSignals\<close> skips
  nothing: with a signed-in user it mints one signal for each of the first five assets, of
  the kind the classifier gives, HOLD included.
\<close>

theorem generateNewSignals_never_HOLD:
  "(\<forall>s \<in> set (snd (generateNewSignals env cryptos st)).
      signalType s = BUY \<or> signalType s = SELL) \<and>
   (dash_user denv \<noteq> None \<longrightarrow>
      map d_signalType (snd (generateSignals denv cryptos prev)) =
      map (\<lambda>c. signal (generateTechnicalSignal (as_market c 1))) (take 5 cryptos))"
proof
  show "\<forall>s \<in> set (snd (generateNewSignals env cryptos st)).
      signalType s = BUY \<or> signalType s = SELL"
  proof (rule generateNewSignals_all)
    fix c j
    assume "signal (generateTechnicalSignal (as_market c 1)) \<noteq> HOLD"
    then show "signalType (new_live_signal env c j) = BUY \<or>
               signalType (new_live_signal env c j) = SELL"
      by (cases "signal (generateTechnicalSignal (as_market c 1))")
         (simp_all add: new_live_signal_def Let_def)
  qed
next
  have "take (min 5 (length (take 8 cryptos))) (take 8 cryptos) = take 5 cryptos"
    by (simp add: min_def take_all)
  then show "dash_user denv \<noteq> None \<longrightarrow>
      map d_signalType (snd (generateSignals denv cryptos prev)) =
      map (\<lambda>c. signal (generateTechnicalSignal (as_market c 1))) (take 5 cryptos)"
    by (simp add: generateSignals_def Let_def generateSignals_loop_kinds)
qed

lemma kind_market_of:
  "signal (generateTechnicalSignal (as_market (hd (market_of price 3)) r)) = BUY"
  "strength (generateTechnicalSignal (as_market (hd (market_of price 3)) r)) = MODERATE"
  "signal (generateTechnicalSignal (as_market (hd (market_of price 1)) r)) = HOLD"
  by (simp_all add: generateTechnicalSignal_def as_market_def market_of_def)

lemma market_of_single: "market_of price pct = [hd (market_of price pct)]"
  by (simp add: market_of_def)

lemma generateNewSignals_market_of:
  "snd (generateNewSignals (gen_with r) (market_of price 3) empty_feed) =
   [new_live_signal (gen_with r) (hd (market_of price 3)) 0]"
proof -
  have "generateNewSignals_loop (gen_with r) [hd (market_of price 3)] 0 [] =
        Some [new_live_signal (gen_with r) (hd (market_of price 3)) 0]"
    by (simp add: kind_market_of) (simp add: gen_with_def)
  moreover have "take 6 (sort_key (\<lambda>c. - \<bar>priceChangePercentage24h c\<bar>) (market_of price 3)) =
        [hd (market_of price 3)]"
    by (subst market_of_single) simp
  moreover have "gen_user (gen_with r) \<noteq> None" "market_of price 3 \<noteq> []"
    by (simp_all add: gen_with_def market_of_def)
  ultimately show ?thesis by (simp add: generateNewSignals_def)
qed

lemma generateSignals_market_of:
  "snd (generateSignals (dash_with r) (market_of price pct) []) =
   [new_signal (dash_with r) (hd (market_of price pct)) 0 0]"
proof -
  have "take (min 5 (length (take 8 (market_of price pct)))) (take 8 (market_of price pct)) =
        [hd (market_of price pct)]"
    by (subst (1 2 3) market_of_single) simp
  moreover have "dash_user (dash_with r) \<noteq> None" by (simp add: dash_with_def)
  ultimately show ?thesis by (simp add: generateSignals_def Let_def)
qed

theorem generateNewSignals_never_HOLD_witness:
  "map signalType (snd (generateNewSignals (gen_with (1 / 2)) (market_of 100 3) empty_feed)) = [BUY] \<and>
   dash_user (dash_with (1 / 2)) \<noteq> None \<and>
   map d_signalType (snd (generateSignals (dash_with (1 / 2)) (market_of 100 3) [])) = [BUY]"
proof -
  have e: "map signalType (snd (generateNewSignals (gen_with (1 / 2)) (market_of 100 3) empty_feed)) =
           [BUY]"
    by (simp add: generateNewSignals_market_of new_live_signal_def Let_def kind_market_of)
  have u: "dash_user (dash_with (1 / 2)) \<noteq> None" by (simp add: dash_with_def)
  have k: "map (\<lambda>c. signal (generateTechnicalSignal (as_market c 1))) (take 5 (market_of 100 3)) =
           [BUY]"
    by (subst market_of_single) (simp add: kind_market_of)
  from generateNewSignals_never_HOLD
    [of "gen_with (1 / 2)" "market_of 100 3" empty_feed "dash_with (1 / 2)" "[]"] e u k
  show ?thesis by simp
qed

text \<open>
  The claim as it is written covers the dashboard's generator too. For an asset that moved
  by 1 percent it mints a HOLD signal.
\<close>

theorem generateSignals_HOLD_counterexample:
  "map d_signalType (snd (generateSignals (dash_with (1 / 2)) (market_of 100 1) [])) = [HOLD]"
  by (simp add: generateSignals_market_of kind_new_signal kind_market_of)

section \<open>Properties of the rounding\<close>

lemma rne_of_int [simp]: "rne (of_int k) = k"
  by (simp add: rne_def)

lemma rne_zero [simp]: "rne 0 = 0"
  using rne_of_int [of 0] by simp

lemma rne_bounds: "\<lfloor>y\<rfloor> \<le> rne y" "rne y \<le> \<lfloor>y\<rfloor> + 1"
  by (simp_all add: rne_def Let_def)

lemma rne_mono:
  assumes "y \<le> z"
  shows "rne y \<le> rne z"
proof (cases "\<lfloor>y\<rfloor> = \<lfloor>z\<rfloor>")
  case True
  with assms show ?thesis by (simp add: rne_def Let_def)
next
  case False
  with assms have "\<lfloor>y\<rfloor> + 1 \<le> \<lfloor>z\<rfloor>" using floor_mono [OF assms] by linarith
  with rne_bounds(2) [of y] rne_bounds(1) [of z] show ?thesis by linarith
qed

lemma rne_error: "\<bar>of_int (rne y) - y\<bar> \<le> 1 / 2"
proof -
  have "of_int \<lfloor>y\<rfloor> \<le> y" "y < of_int \<lfloor>y\<rfloor> + 1" by linarith+
  then show ?thesis by (auto simp: rne_def Let_def)
qed

lemma pow2_pos [simp]: "0 < pow2 k"
  by (simp add: pow2_def)

lemma pow2_add: "pow2 (a + b) = pow2 a * pow2 b"
  by (simp add: pow2_def powr_add)

lemma pow2_nat: "pow2 (int n) = 2 ^ n"
  by (simp add: pow2_def powr_realpow)

lemma pow2_mono: "a \<le> b \<Longrightarrow> pow2 a \<le> pow2 b"
  by (simp add: pow2_def)

lemma pow2_split: "pow2 (k + int n) = pow2 k * 2 ^ n"
  by (simp add: pow2_add pow2_nat)

lemma ulp_pos [simp]: "0 < ulp x"
  by (simp add: ulp_def)

lemma ulp_neq0 [simp]: "ulp x \<noteq> 0"
  using ulp_pos [of x] by linarith

lemma ulp_scale: "pow2 (binade x) = 2 ^ 52 * ulp x" "pow2 (binade x + 1) = 2 ^ 53 * ulp x"
proof -
  have a: "binade x - 52 + int 52 = binade x" "binade x - 52 + int 53 = binade x + 1"
    by simp_all
  show "pow2 (binade x) = 2 ^ 52 * ulp x"
    using pow2_split [of "binade x - 52" 52] unfolding a ulp_def by (simp only: mult.commute)
  show "pow2 (binade x + 1) = 2 ^ 53 * ulp x"
    using pow2_split [of "binade x - 52" 53] unfolding a ulp_def by (simp only: mult.commute)
qed

lemma binade_mono: "0 < x \<Longrightarrow> x \<le> y \<Longrightarrow> binade x \<le> binade y"
  unfolding binade_def by (intro max.mono floor_mono) simp_all

lemma binade_upper:
  assumes "0 < x"
  shows "x < pow2 (binade x + 1)"
proof -
  have "log 2 x < of_int \<lfloor>log 2 x\<rfloor> + 1" by linarith
  also have "\<dots> \<le> of_int (binade x + 1)" by (simp add: binade_def)
  finally have "2 powr (log 2 x) < 2 powr (of_int (binade x + 1))" by simp
  with assms show ?thesis by (simp add: pow2_def)
qed

lemma binade_lower:
  assumes "0 < x" and "- 1022 < binade x"
  shows "pow2 (binade x) \<le> x"
proof -
  from assms(2) have "binade x = \<lfloor>log 2 x\<rfloor>" by (simp add: binade_def max_def split: if_splits)
  then have "of_int (binade x) \<le> log 2 x" by simp
  then have "2 powr (of_int (binade x)) \<le> 2 powr (log 2 x)" by simp
  with assms(1) show ?thesis by (simp add: pow2_def)
qed

lemma binade_eqI:
  assumes "0 < x" and "pow2 k \<le> x" and "x < pow2 (k + 1)" and "- 1022 \<le> k"
  shows "binade x = k"
proof -
  have "\<lfloor>log 2 x\<rfloor> = k"
    using assms(1,2,3) by (simp add: floor_log_eq_powr_iff pow2_def)
  with assms(4) show ?thesis by (simp add: binade_def)
qed

lemma double_zero [simp]: "double 0 = 0"
  by (simp add: double_def)

lemma double_pos: "0 < x \<Longrightarrow> double x = of_int (rne (x / ulp x)) * ulp x"
  by (simp add: double_def)

lemma double_nonneg: "0 \<le> x \<Longrightarrow> 0 \<le> double x"
proof (cases "x = 0")
  case True
  then show ?thesis by simp
next
  case False
  assume "0 \<le> x"
  with False have x: "0 < x" by simp
  have "0 \<le> x / ulp x" using x less_imp_le [OF ulp_pos] by (intro divide_nonneg_nonneg) simp_all
  then have "rne 0 \<le> rne (x / ulp x)" by (rule rne_mono)
  then have "(0::real) \<le> of_int (rne (x / ulp x))" by simp
  then have "0 \<le> of_int (rne (x / ulp x)) * ulp x"
    using less_imp_le [OF ulp_pos] by (rule mult_nonneg_nonneg)
  then show ?thesis using x by (simp add: double_pos)
qed

lemma double_upper:
  assumes "0 < x"
  shows "double x \<le> pow2 (binade x + 1)"
proof -
  have "x < of_int (2 ^ 53) * ulp x" using binade_upper [OF assms] by (simp add: ulp_scale)
  then have "x / ulp x \<le> of_int (2 ^ 53)" by (simp add: pos_divide_le_eq)
  then have "rne (x / ulp x) \<le> rne (of_int (2 ^ 53))" by (rule rne_mono)
  then have "rne (x / ulp x) \<le> 2 ^ 53" unfolding rne_of_int .
  then have "of_int (rne (x / ulp x)) \<le> (of_int (2 ^ 53) :: real)" by (simp only: of_int_le_iff)
  then have "of_int (rne (x / ulp x)) * ulp x \<le> of_int (2 ^ 53) * ulp x"
    using less_imp_le [OF ulp_pos] by (rule mult_right_mono)
  then show ?thesis using assms by (simp add: double_pos ulp_scale)
qed

lemma double_lower:
  assumes "0 < x" and "- 1022 < binade x"
  shows "pow2 (binade x) \<le> double x"
proof -
  have "of_int (2 ^ 52) * ulp x \<le> x" using binade_lower [OF assms] by (simp add: ulp_scale)
  then have "of_int (2 ^ 52) \<le> x / ulp x" by (simp add: pos_le_divide_eq)
  then have "rne (of_int (2 ^ 52)) \<le> rne (x / ulp x)" by (rule rne_mono)
  then have "2 ^ 52 \<le> rne (x / ulp x)" unfolding rne_of_int .
  then have "(of_int (2 ^ 52) :: real) \<le> of_int (rne (x / ulp x))" by (simp only: of_int_le_iff)
  then have "of_int (2 ^ 52) * ulp x \<le> of_int (rne (x / ulp x)) * ulp x"
    using less_imp_le [OF ulp_pos] by (rule mult_right_mono)
  then show ?thesis using assms(1) by (simp add: double_pos ulp_scale)
qed

lemma double_mono:
  assumes "0 \<le> x" and "x \<le> y"
  shows "double x \<le> double y"
proof (cases "x = 0")
  case True
  then show ?thesis using double_nonneg [of y] assms by simp
next
  case False
  with assms have x: "0 < x" and y: "0 < y" by simp_all
  show ?thesis
  proof (cases "binade x = binade y")
    case True
    then have u: "ulp x = ulp y" by (simp add: ulp_def)
    have "x / ulp y \<le> y / ulp y"
      using assms(2) less_imp_le [OF ulp_pos] by (rule divide_right_mono)
    then have "rne (x / ulp y) \<le> rne (y / ulp y)" by (rule rne_mono)
    then have "(of_int (rne (x / ulp y)) :: real) \<le> of_int (rne (y / ulp y))" by simp
    then have "of_int (rne (x / ulp y)) * ulp y \<le> of_int (rne (y / ulp y)) * ulp y"
      using less_imp_le [OF ulp_pos] by (rule mult_right_mono)
    then show ?thesis using x y u by (simp add: double_pos)
  next
    case False
    then have lt: "binade x + 1 \<le> binade y" using binade_mono [OF x assms(2)] by simp
    moreover have "- 1022 \<le> binade x" by (simp add: binade_def)
    ultimately have "- 1022 < binade y" by simp
    from double_lower [OF y this] have "pow2 (binade y) \<le> double y" .
    moreover have "pow2 (binade x + 1) \<le> pow2 (binade y)" using lt by (rule pow2_mono)
    ultimately show ?thesis using double_upper [OF x] by linarith
  qed
qed

lemma pow2_neg: "pow2 (- int n) = 1 / 2 ^ n"
  using pow2_split [of "- int n" n] pow2_nat [of 0] by (simp add: field_simps)

lemma double_error:
  assumes "1 / 2 ^ 1022 \<le> x"
  shows "\<bar>double x - x\<bar> \<le> x / 2 ^ 53"
proof -
  have "(0::real) < 1 / 2 ^ 1022" by simp
  with assms have x: "0 < x" by linarith
  have "pow2 (- 1022) \<le> x" using assms pow2_neg [of 1022] by simp
  then have "2 powr (of_int (- 1022)) \<le> x" by (simp add: pow2_def)
  then have "of_int (- 1022) \<le> log 2 x" using x by (simp add: le_log_iff)
  then have "- 1022 \<le> \<lfloor>log 2 x\<rfloor>" by (simp add: le_floor_iff)
  then have b: "binade x = \<lfloor>log 2 x\<rfloor>" by (simp add: binade_def)
  then have "of_int (binade x) \<le> log 2 x" by simp
  then have "2 powr (of_int (binade x)) \<le> 2 powr (log 2 x)" by simp
  then have "pow2 (binade x) \<le> x" using x by (simp add: pow2_def)
  then have low: "2 ^ 52 * ulp x \<le> x" by (simp add: ulp_scale)
  have "double x - x = (of_int (rne (x / ulp x)) - x / ulp x) * ulp x"
    using x by (simp add: double_pos left_diff_distrib)
  moreover have "\<bar>ulp x\<bar> = ulp x" using less_imp_le [OF ulp_pos] by (rule abs_of_nonneg)
  ultimately have "\<bar>double x - x\<bar> = \<bar>of_int (rne (x / ulp x)) - x / ulp x\<bar> * ulp x"
    by (simp add: abs_mult)
  also have "\<dots> \<le> 1 / 2 * ulp x"
    using rne_error [of "x / ulp x"] less_imp_le [OF ulp_pos] by (rule mult_right_mono)
  also have "\<dots> = (2 ^ 52 * ulp x) / 2 ^ 53" by simp
  also have "\<dots> \<le> x / 2 ^ 53" using low by (intro divide_right_mono) simp_all
  finally show ?thesis .
qed

lemma double_eval:
  assumes "2 ^ 52 \<le> x * 2 ^ n" and "x * 2 ^ n < 2 ^ 53" and "n \<le> 1074"
  shows "double x = of_int (rne (x * 2 ^ n)) / 2 ^ n"
proof -
  have "(0::real) < 2 ^ 52" by simp
  with assms(1) have "0 < x * 2 ^ n" by linarith
  then have x: "0 < x" by (simp add: zero_less_mult_iff)
  have p: "pow2 (52 - int n) * 2 ^ n = 2 ^ 52" "pow2 (52 - int n + 1) * 2 ^ n = 2 ^ 53"
    using pow2_split [of "52 - int n" n] pow2_split [of "52 - int n + 1" n]
      pow2_nat [of 52] pow2_nat [of 53] by simp_all
  have "binade x = 52 - int n"
  proof (rule binade_eqI [OF x])
    have "pow2 (52 - int n) * 2 ^ n \<le> x * 2 ^ n" using assms(1) by (simp only: p)
    then show "pow2 (52 - int n) \<le> x" by simp
    have "x * 2 ^ n < pow2 (52 - int n + 1) * 2 ^ n" using assms(2) by (simp only: p)
    then show "x < pow2 (52 - int n + 1)" by simp
    show "- 1022 \<le> 52 - int n" using assms(3) by simp
  qed
  then have "ulp x = 1 / 2 ^ n" using pow2_neg [of n] by (simp add: ulp_def)
  then show ?thesis using x by (simp add: double_pos)
qed

lemma double_rel:
  assumes "1 / 2 ^ 1022 \<le> x"
  shows "x * (1 - 1 / 2 ^ 53) \<le> double x" and "double x \<le> x * (1 + 1 / 2 ^ 53)"
proof -
  from double_error [OF assms]
  have d: "double x - x \<le> x / 2 ^ 53" "x - double x \<le> x / 2 ^ 53" by linarith+
  have e1: "x * (1 - 1 / 2 ^ 53) = x - x / 2 ^ 53" by (simp add: algebra_simps)
  have e2: "x * (1 + 1 / 2 ^ 53) = x + x / 2 ^ 53" by (simp add: algebra_simps)
  show "x * (1 - 1 / 2 ^ 53) \<le> double x" unfolding e1 using d(2) by linarith
  show "double x \<le> x * (1 + 1 / 2 ^ 53)" unfolding e2 using d(1) by linarith
qed

lemma tiny: "(1 / 2 ^ 1022 :: real) \<le> 1 / 200"
  by simp

lemma draw_part:
  assumes "0 \<le> r" and "r < 1" and "1 / 100 \<le> a" and "a \<le> 1 / 4"
  shows "0 \<le> fmul r (double a)" and "fmul r (double a) \<le> a * (1 + 3 / 2 ^ 53)"
proof -
  have a: "1 / 2 ^ 1022 \<le> a" using assms(3) tiny by linarith
  note ca = double_rel [OF a]
  have ca_lo: "1 / 200 \<le> double a" using ca(1) assms(3) by simp
  then have ca_n: "1 / 2 ^ 1022 \<le> double a" using tiny by linarith
  note cca = double_rel [OF ca_n]
  have nn: "0 \<le> r * double a" using assms(1) ca_lo by simp
  then show "0 \<le> fmul r (double a)" unfolding fmul_def by (rule double_nonneg)
  have "r * double a \<le> 1 * double a" using assms(2) ca_lo by (intro mult_right_mono) simp_all
  then have "r * double a \<le> double a" by simp
  from double_mono [OF nn this] have "fmul r (double a) \<le> double (double a)"
    by (simp add: fmul_def)
  also have "\<dots> \<le> double a * (1 + 1 / 2 ^ 53)" by (rule cca(2))
  also have "\<dots> \<le> a * (1 + 3 / 2 ^ 53)" using ca(2) assms(3,4) by simp
  finally show "fmul r (double a) \<le> a * (1 + 3 / 2 ^ 53)" .
qed

lemma up_factor_bounds:
  assumes "0 \<le> r" and "r < 1" and "1 / 100 \<le> a" and "a \<le> 1 / 4"
    and "1 / 100 \<le> b" and "b \<le> 1 / 4"
  shows "(1 + b) * (1 - 6 / 2 ^ 53) \<le> fadd (fadd 1 (fmul r (double a))) (double b)"
    and "fadd (fadd 1 (fmul r (double a))) (double b) \<le> (1 + a + b) * (1 + 6 / 2 ^ 53)"
proof -
  define p where "p = fmul r (double a)"
  define s where "s = fadd 1 p"
  define f where "f = fadd s (double b)"
  note p = draw_part [OF assms(1,2,3,4), folded p_def]
  have b: "1 / 2 ^ 1022 \<le> b" using assms(5) tiny by linarith
  note cb = double_rel [OF b]
  have "1 / 2 ^ 1022 \<le> 1 + p" using p(1) tiny by linarith
  note s = double_rel [OF this, folded fadd_def s_def]
  have "1 / 2 ^ 1022 \<le> s + double b" using s(1) p(1) cb(1) assms(5) tiny by simp
  note f = double_rel [OF this, folded fadd_def f_def]
  show "(1 + b) * (1 - 6 / 2 ^ 53) \<le> fadd (fadd 1 (fmul r (double a))) (double b)"
    unfolding p_def [symmetric] s_def [symmetric] f_def [symmetric]
    using p s f cb assms(3,4,5,6) by simp
  show "fadd (fadd 1 (fmul r (double a))) (double b) \<le> (1 + a + b) * (1 + 6 / 2 ^ 53)"
    unfolding p_def [symmetric] s_def [symmetric] f_def [symmetric]
    using p s f cb assms(3,4,5,6) by simp
qed

lemma down_factor_bounds:
  assumes "0 \<le> r" and "r < 1" and "1 / 100 \<le> a" and "a \<le> 1 / 4"
    and "1 / 100 \<le> b" and "b \<le> 1 / 4"
  shows "(1 - a - b) * (1 - 6 / 2 ^ 53) \<le> fsub (fsub 1 (fmul r (double a))) (double b)"
    and "fsub (fsub 1 (fmul r (double a))) (double b) \<le> (1 - b) * (1 + 6 / 2 ^ 53)"
proof -
  define p where "p = fmul r (double a)"
  define s where "s = fsub 1 p"
  define f where "f = fsub s (double b)"
  note p = draw_part [OF assms(1,2,3,4), folded p_def]
  have b: "1 / 2 ^ 1022 \<le> b" using assms(5) tiny by linarith
  note cb = double_rel [OF b]
  have "1 / 2 ^ 1022 \<le> 1 - p" using p(2) assms(4) tiny by simp
  note s = double_rel [OF this, folded fsub_def s_def]
  have "1 / 2 ^ 1022 \<le> s - double b" using s(1) p(2) cb(2) assms(3,4,5,6) tiny by simp
  note f = double_rel [OF this, folded fsub_def f_def]
  show "(1 - a - b) * (1 - 6 / 2 ^ 53) \<le> fsub (fsub 1 (fmul r (double a))) (double b)"
    unfolding p_def [symmetric] s_def [symmetric] f_def [symmetric]
    using p s f cb assms(3,4,5,6) by simp
  show "fsub (fsub 1 (fmul r (double a))) (double b) \<le> (1 - b) * (1 + 6 / 2 ^ 53)"
    unfolding p_def [symmetric] s_def [symmetric] f_def [symmetric]
    using p s f cb assms(3,4,5,6) by simp
qed

lemma scaled_bounds:
  assumes "1 / 2 ^ 1000 \<le> e" and "lo * (1 - 6 / 2 ^ 53) \<le> f" and "f \<le> hi * (1 + 6 / 2 ^ 53)"
    and "1 / 2 \<le> lo" and "lo \<le> hi"
  shows "near_range lo hi e (fmul e f)"
proof -
  have e: "0 < e" using assms(1) by (smt (verit) divide_pos_pos zero_less_power)
  have flo: "1 / 4 \<le> f" using assms(2,4) by simp
  have "1 / 2 ^ 1000 * (1 / 4) \<le> e * f" using assms(1) flo e by (intro mult_mono) simp_all
  then have "1 / 2 ^ 1022 \<le> e * f" by simp
  note t = double_rel [OF this, folded fmul_def]
  have l: "e * (lo * (1 - 6 / 2 ^ 53)) \<le> e * f" using assms(2) e by (intro mult_left_mono) simp_all
  have h: "e * f \<le> e * (hi * (1 + 6 / 2 ^ 53))" using assms(3) e by (intro mult_left_mono) simp_all
  have "e * (lo * (1 - 6 / 2 ^ 53)) * (1 - 1 / 2 ^ 53) \<le> e * f * (1 - 1 / 2 ^ 53)"
    using l by (intro mult_right_mono) simp_all
  moreover have "lo * e * (1 - 1 / 2 ^ 50) \<le> e * (lo * (1 - 6 / 2 ^ 53)) * (1 - 1 / 2 ^ 53)"
  proof -
    have "0 \<le> lo * e" using assms(4) e by simp
    then have "(lo * e) * (1 - 1 / 2 ^ 50) \<le> (lo * e) * ((1 - 6 / 2 ^ 53) * (1 - 1 / 2 ^ 53))"
      by (intro mult_left_mono) simp_all
    then show ?thesis by (simp add: mult_ac)
  qed
  ultimately have lower: "lo * e * (1 - 1 / 2 ^ 50) \<le> fmul e f" using t(1) by linarith
  have "e * f * (1 + 1 / 2 ^ 53) \<le> e * (hi * (1 + 6 / 2 ^ 53)) * (1 + 1 / 2 ^ 53)"
    using h by (intro mult_right_mono) simp_all
  moreover have "e * (hi * (1 + 6 / 2 ^ 53)) * (1 + 1 / 2 ^ 53) \<le> hi * e * (1 + 1 / 2 ^ 50)"
  proof -
    have "0 \<le> hi * e" using assms(4,5) e by simp
    then have "(hi * e) * ((1 + 6 / 2 ^ 53) * (1 + 1 / 2 ^ 53)) \<le> (hi * e) * (1 + 1 / 2 ^ 50)"
      by (intro mult_left_mono) simp_all
    then show ?thesis by (simp add: mult_ac)
  qed
  ultimately have upper: "fmul e f \<le> hi * e * (1 + 1 / 2 ^ 50)" using t(2) by linarith
  from lower upper show ?thesis by (simp add: near_range_def)
qed

lemma live_buy_target:
  assumes "0 \<le> r" and "r < 1" and "1 / 2 ^ 1000 \<le> e"
  shows "near_range 1.03 1.15 e (fmul e (fadd (fadd 1 (fmul r (double 0.12))) (double 0.03)))"
  using up_factor_bounds [OF assms(1,2), of "0.12" "0.03"]
  by (intro scaled_bounds [OF assms(3)]) simp_all

lemma live_sell_target:
  assumes "0 \<le> r" and "r < 1" and "1 / 2 ^ 1000 \<le> e"
  shows "near_range 0.85 0.97 e (fmul e (fsub (fsub 1 (fmul r (double 0.12))) (double 0.03)))"
  using down_factor_bounds [OF assms(1,2), of "0.12" "0.03"]
  by (intro scaled_bounds [OF assms(3)]) simp_all

lemma live_buy_stop:
  assumes "0 \<le> r" and "r < 1" and "1 / 2 ^ 1000 \<le> e"
  shows "near_range 0.92 0.98 e (fmul e (fsub (fsub 1 (fmul r (double 0.06))) (double 0.02)))"
  using down_factor_bounds [OF assms(1,2), of "0.06" "0.02"]
  by (intro scaled_bounds [OF assms(3)]) simp_all

lemma live_sell_stop:
  assumes "0 \<le> r" and "r < 1" and "1 / 2 ^ 1000 \<le> e"
  shows "near_range 1.02 1.08 e (fmul e (fadd (fadd 1 (fmul r (double 0.06))) (double 0.02)))"
  using up_factor_bounds [OF assms(1,2), of "0.06" "0.02"]
  by (intro scaled_bounds [OF assms(3)]) simp_all

lemma dash_buy_target:
  assumes "0 \<le> r" and "r < 1" and "1 / 2 ^ 1000 \<le> e"
  shows "near_range 1.05 1.20 e (fmul e (fadd (fadd 1 (fmul r (double 0.15))) (double 0.05)))"
  using up_factor_bounds [OF assms(1,2), of "0.15" "0.05"]
  by (intro scaled_bounds [OF assms(3)]) simp_all

lemma dash_sell_target:
  assumes "0 \<le> r" and "r < 1" and "1 / 2 ^ 1000 \<le> e"
  shows "near_range 0.80 0.95 e (fmul e (fsub (fsub 1 (fmul r (double 0.15))) (double 0.05)))"
  using down_factor_bounds [OF assms(1,2), of "0.15" "0.05"]
  by (intro scaled_bounds [OF assms(3)]) simp_all

lemma dash_buy_stop:
  assumes "0 \<le> r" and "r < 1" and "1 / 2 ^ 1000 \<le> e"
  shows "near_range 0.90 0.98 e (fmul e (fsub (fsub 1 (fmul r (double 0.08))) (double 0.02)))"
  using down_factor_bounds [OF assms(1,2), of "0.08" "0.02"]
  by (intro scaled_bounds [OF assms(3)]) simp_all

lemma dash_sell_stop:
  assumes "0 \<le> r" and "r < 1" and "1 / 2 ^ 1000 \<le> e"
  shows "near_range 1.02 1.10 e (fmul e (fadd (fadd 1 (fmul r (double 0.08))) (double 0.02)))"
  using up_factor_bounds [OF assms(1,2), of "0.08" "0.02"]
  by (intro scaled_bounds [OF assms(3)]) simp_all

section \<open>Ranges of the minted target and stop-loss\<close>

lemma new_live_signal_ranges:
  assumes "\<forall>k. 0 \<le> random env k \<and> random env k < 1"
    and "signal (generateTechnicalSignal (as_market c 1)) \<noteq> HOLD"
    and "1 / 2 ^ 1000 \<le> currentPrice (new_live_signal env c j)"
  shows "live_ranges (new_live_signal env c j)"
proof -
  have e: "1 / 2 ^ 1000 \<le> c_currentPrice c"
    using assms(3) by (simp add: new_live_signal_def Let_def)
  have r: "0 \<le> random env j" "random env j < 1" "0 \<le> random env (j + 1)"
    "random env (j + 1) < 1" using assms(1) by auto
  show ?thesis
  proof (cases "signal (generateTechnicalSignal (as_market c 1))")
    case BUY
    then show ?thesis
      using live_buy_target [OF r(1,2) e] live_buy_stop [OF r(3,4) e]
      by (simp add: live_ranges_def new_live_signal_def Let_def)
  next
    case SELL
    then show ?thesis
      using live_sell_target [OF r(1,2) e] live_sell_stop [OF r(3,4) e]
      by (simp add: live_ranges_def new_live_signal_def Let_def)
  next
    case HOLD
    with assms(2) show ?thesis by simp
  qed
qed

lemma new_signal_ranges:
  assumes "\<forall>k. 0 \<le> dash_random env k \<and> dash_random env k < 1"
    and "1 / 2 ^ 1000 \<le> d_currentPrice (new_signal env c i k)"
  shows "dash_ranges (new_signal env c i k)"
proof -
  have e: "1 / 2 ^ 1000 \<le> c_currentPrice c"
    using assms(2) by (simp add: new_signal_def Let_def)
  have r: "0 \<le> dash_random env k" "dash_random env k < 1" "0 \<le> dash_random env (k + 1)"
    "dash_random env (k + 1) < 1" using assms(1) by auto
  show ?thesis
  proof (cases "signal (generateTechnicalSignal (as_market c (real i + 1)))")
    case BUY
    then show ?thesis
      using dash_buy_target [OF r(1,2) e] dash_buy_stop [OF r(3,4) e]
      by (simp add: dash_ranges_def new_signal_def Let_def)
  next
    case SELL
    then show ?thesis
      using dash_sell_target [OF r(1,2) e] dash_sell_stop [OF r(3,4) e]
      by (simp add: dash_ranges_def new_signal_def Let_def)
  next
    case HOLD
    then show ?thesis by (simp add: dash_ranges_def new_signal_def Let_def)
  qed
qed

text \<open>
  Claim C7, as the code has it. With every random draw in \<open>[0, 1)\<close> and an entry price
  \<open>e\<close> in the normal range of the doubles (here between \<open>2^-1000\<close> and \<open>2^1000\<close>), a
  signal minted by the live feed has, for a BUY, its target between \<open>1.03 e\<close> and
  \<open>1.15 e\<close> and its stop-loss between \<open>0.92 e\<close> and \<open>0.98 e\<close>, and for a SELL its target
  between \<open>0.85 e\<close> and \<open>0.97 e\<close> and its stop-loss between \<open>1.02 e\<close> and \<open>1.08 e\<close>,
  every bound included and taken up to a relative rounding error of \<open>2^-50\<close>: the prices
  are computed in double arithmetic, and no end of a range is open. The dashboard's
  generator uses wider ranges: BUY target between \<open>1.05 e\<close> and \<open>1.20 e\<close>, stop-loss
  between \<open>0.90 e\<close> and \<open>0.98 e\<close>; SELL target between \<open>0.80 e\<close> and \<open>0.95 e\<close>,
  stop-loss between \<open>1.02 e\<close> and \<open>1.10 e\<close>; HOLD neither.
\<close>

theorem target_and_stop_ranges:
  assumes "\<forall>k. 0 \<le> random env k \<and> random env k < 1"
    and "\<forall>k. 0 \<le> dash_random denv k \<and> dash_random denv k < 1"
  shows "(\<forall>s \<in> set (snd (generateNewSignals env cryptos st)).
            1 / 2 ^ 1000 \<le> currentPrice s \<and> currentPrice s \<le> 2 ^ 1000 \<longrightarrow> live_ranges s) \<and>
         (\<forall>s \<in> set (snd (generateSignals denv cryptos prev)).
            1 / 2 ^ 1000 \<le> d_currentPrice s \<and> d_currentPrice s \<le> 2 ^ 1000 \<longrightarrow>
            dash_ranges s)"
proof
  show "\<forall>s \<in> set (snd (generateNewSignals env cryptos st)).
      1 / 2 ^ 1000 \<le> currentPrice s \<and> currentPrice s \<le> 2 ^ 1000 \<longrightarrow> live_ranges s"
    by (rule generateNewSignals_all) (simp add: new_live_signal_ranges [OF assms(1)])
  show "\<forall>s \<in> set (snd (generateSignals denv cryptos prev)).
      1 / 2 ^ 1000 \<le> d_currentPrice s \<and> d_currentPrice s \<le> 2 ^ 1000 \<longrightarrow> dash_ranges s"
    by (rule generateSignals_all) (simp add: new_signal_ranges [OF assms(2)])
qed

lemma minted_at_market_of:
  "signalType (new_live_signal (gen_with r) (hd (market_of price 3)) 0) = BUY"
  "currentPrice (new_live_signal (gen_with r) (hd (market_of price 3)) 0) = price"
  "targetPrice (new_live_signal (gen_with r) (hd (market_of price 3)) 0) =
     Some (fmul price (fadd (fadd 1 (fmul r (double 0.12))) (double 0.03)))"
  "stopLoss (new_live_signal (gen_with r) (hd (market_of price 3)) 0) =
     Some (fmul price (fsub (fsub 1 (fmul r (double 0.06))) (double 0.02)))"
  by (simp_all add: new_live_signal_def Let_def kind_market_of)
     (simp_all add: gen_with_def market_of_def)

theorem target_and_stop_ranges_witness:
  "(\<forall>k. 0 \<le> random (gen_with (1 / 2)) k \<and> random (gen_with (1 / 2)) k < 1) \<and>
   (\<forall>k. 0 \<le> dash_random (dash_with (1 / 2)) k \<and> dash_random (dash_with (1 / 2)) k < 1) \<and>
   map currentPrice (snd (generateNewSignals (gen_with (1 / 2)) (market_of 100 3) empty_feed)) =
     [100] \<and>
   live_ranges (hd (snd (generateNewSignals (gen_with (1 / 2)) (market_of 100 3) empty_feed)))"
proof -
  have h1: "\<forall>k. 0 \<le> random (gen_with (1 / 2)) k \<and> random (gen_with (1 / 2)) k < 1"
    by (simp add: gen_with_def)
  have h2: "\<forall>k. 0 \<le> dash_random (dash_with (1 / 2)) k \<and> dash_random (dash_with (1 / 2)) k < 1"
    by (simp add: dash_with_def)
  from target_and_stop_ranges [OF h1 h2, of "market_of 100 3" empty_feed "[]"] h1 h2
  show ?thesis
    by (simp add: generateNewSignals_market_of minted_at_market_of)
qed

lemma eval_target_draw_0:
  "fmul 100 (fadd (fadd 1 (fmul 0 (double 0.12))) (double 0.03)) = 103"
proof -
  have a: "fmul 0 (double 0.12) = 0" by (simp add: fmul_def)
  have b: "fadd 1 0 = 1"
    unfolding fadd_def by (subst double_eval [where n = 52]) (simp_all add: rne_def Let_def)
  have c: "double 0.03 = 8646911284551352 / 2 ^ 58"
    by (subst double_eval [where n = 58]) (simp_all add: rne_def Let_def)
  have d: "fadd 1 (8646911284551352 / 2 ^ 58) = 4638707616191611 / 2 ^ 52"
    unfolding fadd_def by (subst double_eval [where n = 52]) (simp_all add: rne_def Let_def)
  have e: "fmul 100 (4638707616191611 / 2 ^ 52) = 103"
    unfolding fmul_def by (subst double_eval [where n = 46]) (simp_all add: rne_def Let_def)
  show ?thesis by (simp only: a b c d e)
qed

lemma eval_stop_draw_top:
  "fmul 100 (fsub (fsub 1 (fmul (1 - 1 / 2 ^ 52) (double 0.06))) (double 0.02)) = 92"
proof -
  have a: "double 0.06 = 8646911284551352 / 2 ^ 57"
    by (subst double_eval [where n = 57]) (simp_all add: rne_def Let_def)
  have b: "fmul (1 - 1 / 2 ^ 52) (8646911284551352 / 2 ^ 57) = 8646911284551350 / 2 ^ 57"
    unfolding fmul_def by (subst double_eval [where n = 57]) (simp_all add: rne_def Let_def)
  have c: "fsub 1 (8646911284551350 / 2 ^ 57) = 8466767299456533 / 2 ^ 53"
    unfolding fsub_def by (subst double_eval [where n = 53]) (simp_all add: rne_def Let_def)
  have d: "double 0.02 = 5764607523034235 / 2 ^ 58"
    by (subst double_eval [where n = 58]) (simp_all add: rne_def Let_def)
  have e: "fsub (8466767299456533 / 2 ^ 53) (5764607523034235 / 2 ^ 58) =
           8286623314361713 / 2 ^ 53"
    unfolding fsub_def by (subst double_eval [where n = 53]) (simp_all add: rne_def Let_def)
  have f: "fmul 100 (8286623314361713 / 2 ^ 53) = 92"
    unfolding fmul_def by (subst double_eval [where n = 46]) (simp_all add: rne_def Let_def)
  show ?thesis by (simp only: a b c d e f)
qed

text \<open>
  The claim as it is written asks for the target strictly above \<open>1.03 e\<close> and the stop-loss
  strictly above \<open>0.92 e\<close>. With a draw of 0 the BUY signal minted at 100 has its target at
  103; with the draw \<open>1 - 2^-52\<close> it has its stop-loss at 92.
\<close>

theorem target_range_not_open_counterexample:
  "random (gen_with 0) 0 = 0 \<and>
   map signalType (snd (generateNewSignals (gen_with 0) (market_of 100 3) empty_feed)) = [BUY] \<and>
   map currentPrice (snd (generateNewSignals (gen_with 0) (market_of 100 3) empty_feed)) = [100] \<and>
   map targetPrice (snd (generateNewSignals (gen_with 0) (market_of 100 3) empty_feed)) =
     [Some 103] \<and>
   \<not> (100 * 1.03 < (103::real)) \<and>
   map stopLoss
     (snd (generateNewSignals (gen_with (1 - 1 / 2 ^ 52)) (market_of 100 3) empty_feed)) =
     [Some 92] \<and>
   \<not> (100 * 0.92 < (92::real))"
proof -
  have t: "map targetPrice (snd (generateNewSignals (gen_with 0) (market_of 100 3) empty_feed)) =
      [Some 103]"
    by (simp only: generateNewSignals_market_of snd_conv list.map minted_at_market_of
        eval_target_draw_0)
  have l: "map stopLoss
      (snd (generateNewSignals (gen_with (1 - 1 / 2 ^ 52)) (market_of 100 3) empty_feed)) =
      [Some 92]"
    by (simp only: generateNewSignals_market_of snd_conv list.map minted_at_market_of
        eval_stop_draw_top)
  have k: "map signalType (snd (generateNewSignals (gen_with 0) (market_of 100 3) empty_feed)) =
      [BUY]"
    "map currentPrice (snd (generateNewSignals (gen_with 0) (market_of 100 3) empty_feed)) =
      [100]"
    by (simp_all only: generateNewSignals_market_of snd_conv list.map minted_at_market_of)
  have r: "random (gen_with 0) 0 = 0" by (simp add: gen_with_def)
  have n: "\<not> (100 * 1.03 < (103::real))" "\<not> (100 * 0.92 < (92::real))" by simp_all
  from t l k r n show ?thesis by (intro conjI)
qed

end
